theory Spec2Isabelle
  imports Main
begin

section \<open>Python values, strings and errors\<close>

text \<open>
  The arguments of \<open>Engine.__init__\<close> are dynamically typed.  \<open>pyval\<close> holds the
  values a caller can pass for \<open>enable_logger\<close>; \<open>gameconf\<close> is a string or \<open>None\<close>
  and is modelled as \<open>string option\<close>.  Characters are 8-bit code points.
\<close>

datatype pyval = PyNone | PyBool bool | PyInt int | PyStr string

datatype error =
    EnableLoggerTypeError
  | EnableLoggerValueError
  | OSError
  | TypeError
  | AttributeError
  | ValueError
  | KeyError string
  | NoSectionError string
  | MissingSectionHeaderError
  | DuplicateSectionError string
  | DuplicateOptionError string string
  | ParsingError
  | InterpolationSyntaxError
  | InterpolationMissingOptionError
  | InterpolationDepthError
  | IndexError
  | EOFError
  | KeyboardInterrupt

text \<open>\<open>isinstance(v, bool)\<close> and \<open>v is None\<close>.\<close>

fun isinstance_bool :: "pyval \<Rightarrow> bool" where
  "isinstance_bool (PyBool b) = True"
| "isinstance_bool v = False"

fun is_None :: "pyval \<Rightarrow> bool" where
  "is_None PyNone = True"
| "is_None v = False"

fun truth :: "pyval \<Rightarrow> bool" where
  "truth (PyBool b) = b"
| "truth PyNone = False"
| "truth (PyInt i) = (i \<noteq> 0)"
| "truth (PyStr s) = (s \<noteq> [])"

definition nl :: char where
  "nl = CHR 0x0A"

definition cr :: char where
  "cr = CHR 0x0D"

definition tab :: char where
  "tab = CHR 0x09"

text \<open>\<open>os.sep\<close> on a POSIX system.\<close>

definition sep :: char where
  "sep = CHR ''/''"

text \<open>\<open>str.isspace\<close> on one character, which is also what \<open>\s\<close> matches.\<close>

definition py_isspace :: "char \<Rightarrow> bool" where
  "py_isspace c =
     (let n = (of_char c :: nat)
      in n = 32 \<or> (9 \<le> n \<and> n \<le> 13) \<or> (28 \<le> n \<and> n \<le> 31) \<or> n = 133 \<or> n = 160)"

text \<open>\<open>str.lower\<close> on one character: the upper-case letters differ from their lower-case
  forms by bit 5.\<close>

fun py_lower_char :: "char \<Rightarrow> char" where
  "py_lower_char (Char b0 b1 b2 b3 b4 b5 b6 b7) =
     (let n = (of_char (Char b0 b1 b2 b3 b4 b5 b6 b7) :: nat) in
      if (65 \<le> n \<and> n \<le> 90) \<or> (192 \<le> n \<and> n \<le> 222 \<and> n \<noteq> 215)
      then Char b0 b1 b2 b3 b4 True b6 b7 else Char b0 b1 b2 b3 b4 b5 b6 b7)"

definition py_lower :: "string \<Rightarrow> string" where
  "py_lower s = map py_lower_char s"

definition py_lstrip :: "string \<Rightarrow> string" where
  "py_lstrip s = dropWhile py_isspace s"

definition py_rstrip :: "string \<Rightarrow> string" where
  "py_rstrip s = rev (dropWhile py_isspace (rev s))"

definition py_strip :: "string \<Rightarrow> string" where
  "py_strip s = py_lstrip (py_rstrip s)"

text \<open>\<open>s.rfind(c)\<close>: the highest index of \<open>c\<close>, or \<open>-1\<close>.\<close>

fun rfind_from :: "char \<Rightarrow> string \<Rightarrow> int \<Rightarrow> int \<Rightarrow> int" where
  "rfind_from c [] i best = best"
| "rfind_from c (x # xs) i best = rfind_from c xs (i + 1) (if x = c then i else best)"

definition py_rfind :: "string \<Rightarrow> char \<Rightarrow> int" where
  "py_rfind s c = rfind_from c s 0 (-1)"

text \<open>The slice \<open>s[:k]\<close>; a negative \<open>k\<close> counts from the end.\<close>

definition py_slice_to :: "string \<Rightarrow> int \<Rightarrow> string" where
  "py_slice_to s k = (if k < 0 then take (nat (int (length s) + k)) s else take (nat k) s)"

text \<open>\<open>s.replace(old, new)\<close> for a one-character \<open>old\<close>.\<close>

definition py_replace_char :: "char \<Rightarrow> string \<Rightarrow> string \<Rightarrow> string" where
  "py_replace_char old new s = concat (map (\<lambda>c. if c = old then new else [c]) s)"

text \<open>\<open>sep.join(xs)\<close>.\<close>

fun py_join :: "string \<Rightarrow> string list \<Rightarrow> string" where
  "py_join s [] = []"
| "py_join s [x] = x"
| "py_join s (x # y # ys) = x @ s @ py_join s (y # ys)"

text \<open>Dictionaries keep insertion order; assigning to an existing key keeps its place.\<close>

fun dict_get :: "('k \<times> 'v) list \<Rightarrow> 'k \<Rightarrow> 'v option" where
  "dict_get [] k = None"
| "dict_get ((k', v) # d) k = (if k' = k then Some v else dict_get d k)"

fun dict_set :: "('k \<times> 'v) list \<Rightarrow> 'k \<Rightarrow> 'v \<Rightarrow> ('k \<times> 'v) list" where
  "dict_set [] k v = [(k, v)]"
| "dict_set ((k', v') # d) k v = (if k' = k then (k, v) # d else (k', v') # dict_set d k v)"

definition dict_has :: "('k \<times> 'v) list \<Rightarrow> 'k \<Rightarrow> bool" where
  "dict_has d k = (dict_get d k \<noteq> None)"


section \<open>The configuration parser\<close>

text \<open>
  \<open>configparser.ConfigParser\<close> of the Python standard library with its default settings:
  delimiters \<open>=\<close> and \<open>:\<close>, comment prefixes \<open>#\<close> and \<open>;\<close>, no inline comments, strict
  mode, empty lines allowed in values, option names lower-cased, basic interpolation.
  A parser holds the default section and the named sections in insertion order.
\<close>

record cparser =
  cp_defaults :: "(string \<times> string) list"
  cp_sections :: "(string \<times> (string \<times> string) list) list"

definition default_section :: string where
  "default_section = ''DEFAULT''"

definition ConfigParser :: cparser where
  "ConfigParser = \<lparr>cp_defaults = [], cp_sections = []\<rparr>"

subsection \<open>Reading\<close>

text \<open>A file opened in text mode translates \<open>\r\n\<close> and \<open>\r\<close> to \<open>\n\<close> and is iterated
  line by line.\<close>

fun universal_newlines :: "string \<Rightarrow> string" where
  "universal_newlines [] = []"
| "universal_newlines [c] = (if c = cr then [nl] else [c])"
| "universal_newlines (c # d # s) =
     (if c = cr then (if d = nl then nl # universal_newlines s
                      else nl # universal_newlines (d # s))
      else c # universal_newlines (d # s))"

fun file_lines :: "string \<Rightarrow> string \<Rightarrow> string list" where
  "file_lines cur [] = (if cur = [] then [] else [rev cur])"
| "file_lines cur (c # s) =
     (if c = nl then rev cur # file_lines [] s else file_lines (c # cur) s)"

text \<open>While a file is read an option's value is the list of its lines; values that were
  in the parser before are strings.\<close>

datatype pval = Joined string | Lines "string list"

datatype cursect = NoSect | DefaultSect | NamedSect string

record rstate =
  rs_defaults :: "(string \<times> pval) list"
  rs_sections :: "(string \<times> (string \<times> pval) list) list"
  rs_cursect :: cursect
  rs_sectname :: string
  rs_optname :: "string option"
  rs_indent :: nat
  rs_added_sections :: "string list"
  rs_added_options :: "(string \<times> string) list"
  rs_error :: bool

text \<open>\<open>SECTCRE.match\<close>: \<open>\[(?P<header>.+)\]\<close> at the start of the line.  The greedy
  header runs up to the last \<open>]\<close> of the line and is not empty.\<close>

definition match_section :: "string \<Rightarrow> string option" where
  "match_section v =
     (case v of
        [] \<Rightarrow> None
      | c # r \<Rightarrow>
          if c = CHR ''['' \<and> CHR '']'' \<in> set r
          then (let h = rev (tl (dropWhile (\<lambda>x. x \<noteq> CHR '']'') (rev r)))
                in if h \<noteq> [] then Some h else None)
          else None)"

text \<open>\<open>_optcre.match\<close>: \<open>(?P<option>.*?)\s*(?P<vi>=|:)\s*(?P<value>.*)$\<close>.  The lazy option
  group ends before the white space in front of the first delimiter.\<close>

definition is_delim :: "char \<Rightarrow> bool" where
  "is_delim c = (c = CHR ''='' \<or> c = CHR '':'')"

definition match_option :: "string \<Rightarrow> (string \<times> string) option" where
  "match_option v =
     (let pre = takeWhile (\<lambda>c. \<not> is_delim c) v;
          post = dropWhile (\<lambda>c. \<not> is_delim c) v
      in if post = [] then None else Some (py_rstrip pre, py_lstrip (tl post)))"

definition optname_set :: "string option \<Rightarrow> bool" where
  "optname_set on = (case on of None \<Rightarrow> False | Some s \<Rightarrow> s \<noteq> [])"

definition value_append :: "string \<Rightarrow> string \<Rightarrow> (string \<times> pval) list \<Rightarrow> (string \<times> pval) list" where
  "value_append k x d =
     map (\<lambda>(k', v). if k' = k then (k', (case v of Lines ls \<Rightarrow> Lines (ls @ [x]) | Joined s \<Rightarrow> Joined s))
                     else (k', v)) d"

definition cursect_update ::
  "((string \<times> pval) list \<Rightarrow> (string \<times> pval) list) \<Rightarrow> rstate \<Rightarrow> rstate" where
  "cursect_update f st =
     (case rs_cursect st of
        NoSect \<Rightarrow> st
      | DefaultSect \<Rightarrow> st\<lparr>rs_defaults := f (rs_defaults st)\<rparr>
      | NamedSect n \<Rightarrow>
          st\<lparr>rs_sections := map (\<lambda>(n', d). if n' = n then (n', f d) else (n', d)) (rs_sections st)\<rparr>)"

text \<open>One iteration of the loop of \<open>_read\<close>.\<close>

definition read_line :: "rstate \<Rightarrow> string \<Rightarrow> error + rstate" where
  "read_line st line =
     (let stripped = py_strip line;
          is_comment = (take 1 stripped = ''#'' \<or> take 1 stripped = '';'');
          v = (if is_comment then [] else stripped)
      in
      if v = [] then
        (if \<not> is_comment \<and> rs_cursect st \<noteq> NoSect \<and> optname_set (rs_optname st)
         then Inr (cursect_update (value_append (the (rs_optname st)) []) st)
         else Inr st)
      else
        (let cur_indent_level = length (takeWhile py_isspace line) in
         if rs_cursect st \<noteq> NoSect \<and> optname_set (rs_optname st) \<and> cur_indent_level > rs_indent st
         then Inr (cursect_update (value_append (the (rs_optname st)) v) st)
         else
           (let st1 = st\<lparr>rs_indent := cur_indent_level\<rparr> in
            case match_section v of
              Some sectname \<Rightarrow>
                if dict_has (rs_sections st1) sectname then
                  (if sectname \<in> set (rs_added_sections st1)
                   then Inl (DuplicateSectionError sectname)
                   else Inr (st1\<lparr>rs_cursect := NamedSect sectname, rs_sectname := sectname,
                                 rs_added_sections := sectname # rs_added_sections st1,
                                 rs_optname := None\<rparr>))
                else if sectname = default_section then
                  Inr (st1\<lparr>rs_cursect := DefaultSect, rs_sectname := sectname, rs_optname := None\<rparr>)
                else
                  Inr (st1\<lparr>rs_sections := rs_sections st1 @ [(sectname, [])],
                           rs_cursect := NamedSect sectname, rs_sectname := sectname,
                           rs_added_sections := sectname # rs_added_sections st1,
                           rs_optname := None\<rparr>)
            | None \<Rightarrow>
                if rs_cursect st1 = NoSect then Inl MissingSectionHeaderError
                else
                  (case match_option v of
                     None \<Rightarrow> Inr (st1\<lparr>rs_error := True\<rparr>)
                   | Some (opt, optval) \<Rightarrow>
                       (let st2 = (if opt = [] then st1\<lparr>rs_error := True\<rparr> else st1);
                            optname = py_lower (py_rstrip opt)
                        in if (rs_sectname st2, optname) \<in> set (rs_added_options st2)
                           then Inl (DuplicateOptionError (rs_sectname st2) optname)
                           else Inr (cursect_update (\<lambda>d. dict_set d optname (Lines [py_strip optval]))
                                  (st2\<lparr>rs_optname := Some optname,
                                       rs_added_options :=
                                         (rs_sectname st2, optname) # rs_added_options st2\<rparr>)))))))"

fun read_lines :: "rstate \<Rightarrow> string list \<Rightarrow> error + rstate" where
  "read_lines st [] = Inr st"
| "read_lines st (l # ls) =
     (case read_line st l of Inl e \<Rightarrow> Inl e | Inr st' \<Rightarrow> read_lines st' ls)"

text \<open>\<open>_join_multiline_values\<close>.\<close>

definition join_value :: "pval \<Rightarrow> string" where
  "join_value v = (case v of Joined s \<Rightarrow> s | Lines ls \<Rightarrow> py_rstrip (py_join [nl] ls))"

definition join_items :: "(string \<times> pval) list \<Rightarrow> (string \<times> string) list" where
  "join_items d = map (\<lambda>(k, v). (k, join_value v)) d"

definition unjoin_items :: "(string \<times> string) list \<Rightarrow> (string \<times> pval) list" where
  "unjoin_items d = map (\<lambda>(k, v). (k, Joined v)) d"

text \<open>\<open>_read\<close> on the text of a file: a parsing error is kept until the end of the file,
  the other errors are raised at their line.\<close>

definition read_string :: "cparser \<Rightarrow> string \<Rightarrow> error + cparser" where
  "read_string cp text =
     (let st0 = \<lparr>rs_defaults = unjoin_items (cp_defaults cp),
                 rs_sections = map (\<lambda>(n, d). (n, unjoin_items d)) (cp_sections cp),
                 rs_cursect = NoSect, rs_sectname = [], rs_optname = None, rs_indent = 0,
                 rs_added_sections = [], rs_added_options = [], rs_error = False\<rparr>
      in case read_lines st0 (file_lines [] (universal_newlines text)) of
           Inl e \<Rightarrow> Inl e
         | Inr st \<Rightarrow>
             if rs_error st then Inl ParsingError
             else Inr \<lparr>cp_defaults = join_items (rs_defaults st),
                       cp_sections = map (\<lambda>(n, d). (n, join_items d)) (rs_sections st)\<rparr>)"


subsection \<open>Interpolation\<close>

text \<open>\<open>_KEYCRE.match\<close>: \<open>%\(([^)]+)\)s\<close> at the start of the string; the result is the
  key and the text after the match.\<close>

definition match_key :: "string \<Rightarrow> (string \<times> string) option" where
  "match_key s =
     (case s of
        a # b # r \<Rightarrow>
          if a = CHR ''%'' \<and> b = CHR ''(''
          then (let k = takeWhile (\<lambda>x. x \<noteq> CHR '')'') r;
                    r' = dropWhile (\<lambda>x. x \<noteq> CHR '')'') r
                in if k \<noteq> [] \<and> take 2 r' = '')s'' then Some (k, drop 2 r') else None)
          else None
      | _ \<Rightarrow> None)"

lemma match_key_shorter: "match_key s = Some (k, r) \<Longrightarrow> length r < length s"
proof -
  assume m: "match_key s = Some (k, r)"
  then obtain a b t where s: "s = a # b # t"
    by (auto simp: match_key_def split: list.splits)
  from m s have "r = drop 2 (dropWhile (\<lambda>x. x \<noteq> CHR '')'') t)"
    by (auto simp: match_key_def Let_def split: if_splits)
  moreover have "length (dropWhile (\<lambda>x. x \<noteq> CHR '')'') t) \<le> length t"
    by (rule length_dropWhile_le)
  ultimately show ?thesis using s by simp
qed

text \<open>\<open>value.replace('%%', '')\<close> and \<open>_KEYCRE.sub('', value)\<close>, as \<open>before_set\<close> uses them.\<close>

fun remove_percent_pairs :: "string \<Rightarrow> string" where
  "remove_percent_pairs (a # b # s) =
     (if a = CHR ''%'' \<and> b = CHR ''%'' then remove_percent_pairs s
      else a # remove_percent_pairs (b # s))"
| "remove_percent_pairs s = s"

function remove_keys :: "string \<Rightarrow> string" where
  "remove_keys s =
     (case match_key s of
        Some (k, r) \<Rightarrow> remove_keys r
      | None \<Rightarrow> (case s of [] \<Rightarrow> [] | c # cs \<Rightarrow> c # remove_keys cs))"
  by pat_completeness auto
termination
proof (relation "measure length")
  show "wf (measure length)" by simp
next
  fix s :: string and x2 k r
  assume "match_key s = Some x2" and "(k, r) = x2"
  then have "match_key s = Some (k, r)" by simp
  then show "(r, s) \<in> measure length" using match_key_shorter by simp
next
  fix s :: string and c cs
  assume "s = c # cs"
  then show "(cs, s) \<in> measure length" by simp
qed

declare remove_keys.simps [simp del]

definition before_set :: "string \<Rightarrow> error + string" where
  "before_set v =
     (if CHR ''%'' \<in> set (remove_keys (remove_percent_pairs v)) then Inl ValueError else Inr v)"


lemma tl_dropWhile_shorter: "tl (dropWhile P xs) = c # r \<Longrightarrow> length r < length xs"
proof -
  assume a: "tl (dropWhile P xs) = c # r"
  have "length (tl (dropWhile P xs)) \<le> length (dropWhile P xs)" by simp
  also have "\<dots> \<le> length xs" by (rule length_dropWhile_le)
  finally show ?thesis using a by simp
qed

text \<open>\<open>BasicInterpolation._interpolate_some\<close>.  The first argument is the number of
  nesting levels left: the source starts at depth 1 and raises above depth 10.  The map
  is the section's options over the defaults.\<close>

function interpolate_some :: "nat \<Rightarrow> (string \<Rightarrow> string option) \<Rightarrow> string \<Rightarrow> error + string" where
  "interpolate_some fuel m rest =
     (if fuel = 0 then Inl InterpolationDepthError
      else if rest = [] then Inr []
      else
        (let pre = takeWhile (\<lambda>c. c \<noteq> CHR ''%'') rest;
             r = dropWhile (\<lambda>c. c \<noteq> CHR ''%'') rest
         in if r = [] then Inr rest
            else
              (case tl r of
                 [] \<Rightarrow> Inl InterpolationSyntaxError
               | c # r2 \<Rightarrow>
                   if c = CHR ''%'' then
                     (case interpolate_some fuel m r2 of
                        Inl e \<Rightarrow> Inl e
                      | Inr t \<Rightarrow> Inr (pre @ ''%'' @ t))
                   else if c = CHR ''('' then
                     (case match_key r of
                        None \<Rightarrow> Inl InterpolationSyntaxError
                      | Some (var, r3) \<Rightarrow>
                          (case m (py_lower var) of
                             None \<Rightarrow> Inl InterpolationMissingOptionError
                           | Some v \<Rightarrow>
                               (case (if CHR ''%'' \<in> set v
                                      then interpolate_some (fuel - 1) m v else Inr v) of
                                  Inl e \<Rightarrow> Inl e
                                | Inr s \<Rightarrow>
                                    (case interpolate_some fuel m r3 of
                                       Inl e \<Rightarrow> Inl e
                                     | Inr t \<Rightarrow> Inr (pre @ s @ t)))))
                   else Inl InterpolationSyntaxError)))"
  by pat_completeness auto
termination
  apply (relation "measures [\<lambda>(fuel, m, rest). fuel, \<lambda>(fuel, m, rest). length rest]")
  apply simp
  subgoal for fuel m rest x xa c r2
    using tl_dropWhile_shorter [of "\<lambda>c. c \<noteq> CHR ''%''" rest c r2] by simp
  subgoal by simp
  subgoal
    apply (auto dest!: match_key_shorter)
    using length_dropWhile_le [of "\<lambda>c. c \<noteq> CHR ''%''"]
    apply (metis le_trans less_imp_le_nat not_less)
    done
  done

declare interpolate_some.simps [simp del]

subsection \<open>Lookup, assignment and writing\<close>

text \<open>\<open>has_option(section, option)\<close>.\<close>

definition has_option :: "cparser \<Rightarrow> string \<Rightarrow> string \<Rightarrow> bool" where
  "has_option cp section option =
     (if section = [] \<or> section = default_section
      then dict_has (cp_defaults cp) (py_lower option)
      else (case dict_get (cp_sections cp) section of
              None \<Rightarrow> False
            | Some d \<Rightarrow> dict_has d (py_lower option) \<or> dict_has (cp_defaults cp) (py_lower option)))"

text \<open>\<open>get(section, option)\<close>: the section's options are looked up before the defaults,
  and the raw value is interpolated.\<close>

definition unify_values :: "cparser \<Rightarrow> string \<Rightarrow> error + (string \<Rightarrow> string option)" where
  "unify_values cp section =
     (case dict_get (cp_sections cp) section of
        Some d \<Rightarrow>
          Inr (\<lambda>k. case dict_get d k of Some v \<Rightarrow> Some v | None \<Rightarrow> dict_get (cp_defaults cp) k)
      | None \<Rightarrow>
          if section \<noteq> default_section then Inl (NoSectionError section)
          else Inr (dict_get (cp_defaults cp)))"

definition cparser_get :: "cparser \<Rightarrow> string \<Rightarrow> string \<Rightarrow> error + string" where
  "cparser_get cp section option =
     (case unify_values cp section of
        Inl e \<Rightarrow> Inl e
      | Inr d \<Rightarrow>
          (case d (py_lower option) of
             None \<Rightarrow> Inl (KeyError option)
           | Some v \<Rightarrow> interpolate_some 10 d v))"

text \<open>\<open>cparser[section][option]\<close>: the section proxy, then the option.\<close>

definition getitem :: "cparser \<Rightarrow> string \<Rightarrow> string \<Rightarrow> error + string" where
  "getitem cp section option =
     (if section \<noteq> default_section \<and> \<not> dict_has (cp_sections cp) section
      then Inl (KeyError section)
      else if \<not> has_option cp section option then Inl (KeyError option)
      else cparser_get cp section option)"

text \<open>\<open>cparser[section] = {}\<close>: an existing section is emptied in place, a new one is
  added at the end.\<close>

definition setitem_section :: "cparser \<Rightarrow> string \<Rightarrow> cparser" where
  "setitem_section cp section =
     (if section = default_section then cp\<lparr>cp_defaults := []\<rparr>
      else if dict_has (cp_sections cp) section
      then cp\<lparr>cp_sections := dict_set (cp_sections cp) section []\<rparr>
      else cp\<lparr>cp_sections := cp_sections cp @ [(section, [])]\<rparr>)"

text \<open>\<open>cparser[section][option] = value\<close> for a string value.\<close>

definition setitem :: "cparser \<Rightarrow> string \<Rightarrow> string \<Rightarrow> string \<Rightarrow> error + cparser" where
  "setitem cp section option v =
     (if section \<noteq> default_section \<and> \<not> dict_has (cp_sections cp) section
      then Inl (KeyError section)
      else
        (case (if v \<noteq> [] then before_set v else Inr v) of
           Inl e \<Rightarrow> Inl e
         | Inr v' \<Rightarrow>
             if section = [] \<or> section = default_section
             then Inr (cp\<lparr>cp_defaults := dict_set (cp_defaults cp) (py_lower option) v'\<rparr>)
             else
               (case dict_get (cp_sections cp) section of
                  None \<Rightarrow> Inl (NoSectionError section)
                | Some d \<Rightarrow>
                    Inr (cp\<lparr>cp_sections :=
                           dict_set (cp_sections cp) section (dict_set d (py_lower option) v')\<rparr>))))"

text \<open>\<open>write(f)\<close>: the default section first when it has options, then every section;
  each section is a header, its \<open>key = value\<close> lines and an empty line.\<close>

definition write_section :: "string \<Rightarrow> (string \<times> string) list \<Rightarrow> string" where
  "write_section name its =
     ''['' @ name @ '']'' @ [nl]
     @ concat (map (\<lambda>(k, v). k @ '' = '' @ py_replace_char nl [nl, tab] v @ [nl]) its)
     @ [nl]"

definition cparser_write :: "cparser \<Rightarrow> string" where
  "cparser_write cp =
     (if cp_defaults cp \<noteq> [] then write_section default_section (cp_defaults cp) else [])
     @ concat (map (\<lambda>(n, d). write_section n d) (cp_sections cp))"


section \<open>The file system, the logger and the helpers\<close>

text \<open>
  The state outside the engine: the regular files with their contents, the directories,
  the paths on which the operating system refuses to create anything, the current date as
  \<open>datetime.now().date()\<close> prints it, and the trace of every file-system and logger
  operation in the order in which it was requested.
\<close>

record logger_handle =
  lg_fpath :: string
  lg_fname :: string
  lg_level :: int
  lg_stdio :: bool
  lg_fileio :: bool

datatype io_event =
    EvCreateDir "string option"
  | EvCreateFile string
  | EvStat string
  | EvRead string
  | EvWrite string
  | EvSetupLogger "string option" "string option" "int option" "bool option" "bool option"
  | EvLogInfo string
  | EvPrompt string

record world =
  files :: "string \<rightharpoonup> string"
  dirs :: "string set"
  refused :: "string \<Rightarrow> bool"
  today :: string
  io_log :: "io_event list"

definition emit :: "io_event \<Rightarrow> world \<Rightarrow> world" where
  "emit ev w = w\<lparr>io_log := io_log w @ [ev]\<rparr>"

text \<open>
  Modelled from the spec: \<open>create_dir\<close> and \<open>create_file\<close> of \<open>utility.base_util\<close>, which
  is not among the source files.  Sections 1 and 4.1 treat them as idempotent calls that
  guarantee on return that the directory or file exists, and whose failure (permissions,
  invalid path) propagates to the caller.  An existing file keeps its content.  The
  argument of \<open>create_dir\<close> is \<open>None\<close> when the caller passes an attribute of the
  configuration that was never assigned; section 4.2 calls this an error condition.  Every
  call is a request in the trace, whatever its outcome.
\<close>

definition create_dir :: "string option \<Rightarrow> world \<Rightarrow> (error + unit) \<times> world" where
  "create_dir arg w =
     (let w1 = emit (EvCreateDir arg) w
      in case arg of
           None \<Rightarrow> (Inl TypeError, w1)
         | Some p \<Rightarrow>
             if refused w p then (Inl OSError, w1)
             else (Inr (), w1\<lparr>dirs := insert p (dirs w1)\<rparr>))"

definition create_file :: "string \<Rightarrow> world \<Rightarrow> (error + unit) \<times> world" where
  "create_file p w =
     (let w1 = emit (EvCreateFile p) w
      in if refused w p then (Inl OSError, w1)
         else (case files w1 p of
                 None \<Rightarrow> (Inr (), w1\<lparr>files := (files w1)(p \<mapsto> [])\<rparr>)
               | Some c \<Rightarrow> (Inr (), w1)))"

text \<open>\<open>os.stat(p).st_size\<close>, \<open>cparser.read(p)\<close> (a file that cannot be opened is skipped)
  and \<open>open(p, "w")\<close> followed by one write of the whole text.\<close>

definition stat_size :: "string \<Rightarrow> world \<Rightarrow> (error + nat) \<times> world" where
  "stat_size p w =
     (let w1 = emit (EvStat p) w
      in case files w p of None \<Rightarrow> (Inl OSError, w1) | Some c \<Rightarrow> (Inr (length c), w1))"

definition cparser_read :: "cparser \<Rightarrow> string \<Rightarrow> world \<Rightarrow> (error + cparser) \<times> world" where
  "cparser_read cp p w =
     (let w1 = emit (EvRead p) w
      in case files w p of None \<Rightarrow> (Inr cp, w1) | Some c \<Rightarrow> (read_string cp c, w1))"

definition open_write :: "string \<Rightarrow> string \<Rightarrow> world \<Rightarrow> (error + unit) \<times> world" where
  "open_write p c w =
     (let w1 = emit (EvWrite p) w
      in if files w p = None \<and> refused w p then (Inl OSError, w1)
         else (Inr (), w1\<lparr>files := (files w1)(p \<mapsto> c)\<rparr>))"

text \<open>The levels of the \<open>logging\<close> module.\<close>

definition DEBUG :: int where
  "DEBUG = 10"

definition INFO :: int where
  "INFO = 20"

text \<open>
  Modelled from the spec: \<open>setup_logger\<close> of \<open>utility.base_util\<close>, which is not among the
  source files.  Sections 3 and 4.2 describe the logger as an opaque capability bound to a
  directory, a file name, a level and two independent sinks; what the sinks write is outside
  the model, a record emitted through the handle is an event of the trace.  An argument is
  \<open>None\<close> when it comes from an attribute that was never assigned; the request is in the
  trace all the same and no handle is returned.
\<close>

definition setup_logger ::
  "string option \<Rightarrow> string option \<Rightarrow> int option \<Rightarrow> bool option \<Rightarrow> bool option \<Rightarrow> world
   \<Rightarrow> (error + logger_handle) \<times> world" where
  "setup_logger fpath fname level stdio fileio w =
     (let w1 = emit (EvSetupLogger fpath fname level stdio fileio) w
      in case (fpath, fname, level, stdio, fileio) of
           (Some p, Some n, Some l, Some so, Some fo) \<Rightarrow>
             (Inr \<lparr>lg_fpath = p, lg_fname = n, lg_level = l, lg_stdio = so, lg_fileio = fo\<rparr>, w1)
         | _ \<Rightarrow> (Inl TypeError, w1))"

definition logger_info :: "logger_handle \<Rightarrow> string \<Rightarrow> world \<Rightarrow> world" where
  "logger_info h msg w = (if lg_level h \<le> INFO then emit (EvLogInfo msg) w else w)"

section \<open>The constants of the configuration file\<close>

text \<open>
  Modelled from the spec: the constants of \<open>dm.dm_constants\<close>, which is not among the source
  files.  The section names, option names and default values are those of the table in
  section 6; \<open>ENABLE\<close> and \<open>DISABLE\<close> are the two literals of the boolean-like options.
\<close>

definition ENABLE :: string where
  "ENABLE = ''enable''"

definition DISABLE :: string where
  "DISABLE = ''disable''"

definition LOGGER_SECTION :: string where
  "LOGGER_SECTION = ''logger''"

definition ENGINE_SECTION :: string where
  "ENGINE_SECTION = ''engine''"

definition LOGFILE_OPTION :: string where
  "LOGFILE_OPTION = ''log_file''"

definition LOGDIR_OPTION :: string where
  "LOGDIR_OPTION = ''log_dir''"

definition LOGTOFILE_OPTION :: string where
  "LOGTOFILE_OPTION = ''log_to_file''"

definition LOGTOSTDIO_OPTION :: string where
  "LOGTOSTDIO_OPTION = ''log_to_stdio''"

definition ENABLE_DEBUG_OPTION :: string where
  "ENABLE_DEBUG_OPTION = ''enable_debug''"

definition LOGFILE_VALUE :: string where
  "LOGFILE_VALUE = ''engine''"

definition LOGDIR_VALUE :: string where
  "LOGDIR_VALUE = ''./logs''"

definition LOGTOFILE_VALUE :: string where
  "LOGTOFILE_VALUE = DISABLE"

definition LOGTOSTDIO_VALUE :: string where
  "LOGTOSTDIO_VALUE = DISABLE"

definition ENABLE_DEBUG_VALUE :: string where
  "ENABLE_DEBUG_VALUE = DISABLE"


section \<open>The engine\<close>

text \<open>
  \<open>engineconf\<close> is the named-tuple class whose five attributes the engine assigns one by
  one; an attribute that was never assigned is \<open>None\<close> here.  The fields of \<open>engine\<close> are
  the attributes \<open>_enable_logger\<close>, \<open>_init\<close>, \<open>engineconf\<close>, \<open>gameconf\<close> and \<open>_logger\<close>.
\<close>

record engineconf_t =
  log_fpath :: "string option"
  log_fname :: "string option"
  log_level :: "int option"
  log_stdio :: "bool option"
  log_fileio :: "bool option"

definition engineconf_unset :: engineconf_t where
  "engineconf_unset =
     \<lparr>log_fpath = None, log_fname = None, log_level = None, log_stdio = None, log_fileio = None\<rparr>"

record engine =
  self_enable_logger :: bool
  self_init :: bool
  self_engineconf :: engineconf_t
  self_gameconf :: "string option"
  self_logger :: "logger_handle option"

text \<open>\<open>__get_conf_parser\<close>.\<close>

definition get_conf_parser :: cparser where
  "get_conf_parser = ConfigParser"

text \<open>\<open>__parse_config\<close>.  An exception of the parser leaves the constructor, so a failed
  parse returns no engine.\<close>

definition parse_config :: "engine \<Rightarrow> world \<Rightarrow> (error + engine) \<times> world" where
  "parse_config e w =
     (case self_gameconf e of
        None \<Rightarrow> (Inl TypeError, w)
      | Some g \<Rightarrow>
          (case cparser_read get_conf_parser g w of
             (Inl err, w1) \<Rightarrow> (Inl err, w1)
           | (Inr cparser, w1) \<Rightarrow>
               if self_enable_logger e then
                 (case getitem cparser LOGGER_SECTION LOGFILE_OPTION of
                    Inl err \<Rightarrow> (Inl err, w1)
                  | Inr fname \<Rightarrow>
                 (case getitem cparser LOGGER_SECTION LOGDIR_OPTION of
                    Inl err \<Rightarrow> (Inl err, w1)
                  | Inr fpath \<Rightarrow>
                 (case getitem cparser LOGGER_SECTION LOGTOFILE_OPTION of
                    Inl err \<Rightarrow> (Inl err, w1)
                  | Inr tofile \<Rightarrow>
                 (case getitem cparser LOGGER_SECTION LOGTOSTDIO_OPTION of
                    Inl err \<Rightarrow> (Inl err, w1)
                  | Inr tostdio \<Rightarrow>
                      (Inr (e\<lparr>self_engineconf :=
                               \<lparr>log_fpath = Some fpath,
                                log_fname = Some fname,
                                log_level = Some DEBUG,
                                log_stdio = Some (if tostdio = ENABLE then True else False),
                                log_fileio = Some (if tofile = ENABLE then True else False)\<rparr>\<rparr>),
                       w1)))))
               else (Inr e, w1)))"

text \<open>\<open>__create_config\<close>.\<close>

definition then_setitem ::
  "error + cparser \<Rightarrow> string \<Rightarrow> string \<Rightarrow> string \<Rightarrow> error + cparser" where
  "then_setitem r section option v =
     (case r of Inl err \<Rightarrow> Inl err | Inr cp \<Rightarrow> setitem cp section option v)"

definition then_setitem_section :: "error + cparser \<Rightarrow> string \<Rightarrow> error + cparser" where
  "then_setitem_section r section =
     (case r of Inl err \<Rightarrow> Inl err | Inr cp \<Rightarrow> Inr (setitem_section cp section))"

definition default_config :: "cparser \<Rightarrow> error + cparser" where
  "default_config cp =
     (let r1 = then_setitem_section (Inr cp) LOGGER_SECTION;
          r2 = then_setitem r1 LOGGER_SECTION LOGFILE_OPTION LOGFILE_VALUE;
          r3 = then_setitem r2 LOGGER_SECTION LOGDIR_OPTION LOGDIR_VALUE;
          r4 = then_setitem r3 LOGGER_SECTION LOGTOFILE_OPTION LOGTOFILE_VALUE;
          r5 = then_setitem r4 LOGGER_SECTION LOGTOSTDIO_OPTION LOGTOSTDIO_VALUE;
          r6 = then_setitem r5 LOGGER_SECTION ENABLE_DEBUG_OPTION ENABLE_DEBUG_VALUE;
          r7 = then_setitem_section r6 ENGINE_SECTION
      in then_setitem r7 ENGINE_SECTION ENABLE_DEBUG_OPTION ENABLE_DEBUG_VALUE)"

definition create_config :: "engine \<Rightarrow> world \<Rightarrow> (error + engine) \<times> world" where
  "create_config e w =
     (case self_gameconf e of
        None \<Rightarrow> (Inl TypeError, w)
      | Some g \<Rightarrow>
          (case cparser_read get_conf_parser g w of
             (Inl err, w1) \<Rightarrow> (Inl err, w1)
           | (Inr cparser0, w1) \<Rightarrow>
               (case default_config cparser0 of
                  Inl err \<Rightarrow> (Inl err, w1)
                | Inr cparser \<Rightarrow>
                    (case open_write g (cparser_write cparser) w1 of
                       (Inl err, w2) \<Rightarrow> (Inl err, w2)
                     | (Inr u, w2) \<Rightarrow>
                         if self_enable_logger e then
                           (Inr (e\<lparr>self_engineconf :=
                                    \<lparr>log_fpath = Some LOGDIR_VALUE,
                                     log_fname = Some LOGFILE_VALUE,
                                     log_level = Some DEBUG,
                                     log_stdio =
                                       Some (if LOGTOSTDIO_VALUE = ENABLE then True else False),
                                     log_fileio =
                                       Some (if LOGTOFILE_VALUE = ENABLE then True else False)\<rparr>\<rparr>),
                            w2)
                         else (Inr e, w2)))))"

text \<open>
  \<open>set_logger\<close>.  The log directory is requested first, then the logger, with the file name
  \<open>"{}_{}.log".format(log_fname, date)\<close>.  Both helpers are called with whatever the
  attributes of the configuration hold.
\<close>

definition set_logger :: "engine \<Rightarrow> world \<Rightarrow> (error + engine) \<times> world" where
  "set_logger e w =
     (case create_dir (log_fpath (self_engineconf e)) w of
        (Inl err, w1) \<Rightarrow> (Inl err, w1)
      | (Inr u, w1) \<Rightarrow>
          (case setup_logger
                  (log_fpath (self_engineconf e))
                  (map_option (\<lambda>n. n @ ''_'' @ today w1 @ ''.log'') (log_fname (self_engineconf e)))
                  (log_level (self_engineconf e))
                  (log_stdio (self_engineconf e))
                  (log_fileio (self_engineconf e))
                  w1 of
             (Inl err, w2) \<Rightarrow> (Inl err, w2)
           | (Inr h, w2) \<Rightarrow> (Inr (e\<lparr>self_logger := Some h\<rparr>), w2)))"

text \<open>\<open>get_logger\<close>.\<close>

definition get_logger :: "engine \<Rightarrow> logger_handle option" where
  "get_logger e = self_logger e"

text \<open>The bootstrap step of the constructor (lines 57 to 66): with a configuration path
  the directory and the file are created, and the file is seeded when it is empty and
  parsed otherwise.\<close>

definition bootstrap :: "engine \<Rightarrow> world \<Rightarrow> (error + engine) \<times> world" where
  "bootstrap e w =
     (case self_gameconf e of
        None \<Rightarrow> (Inr e, w)
      | Some g \<Rightarrow>
          (case create_dir (Some (py_slice_to g (py_rfind g sep))) w of
             (Inl err, w1) \<Rightarrow> (Inl err, w1)
           | (Inr u, w1) \<Rightarrow>
               (case create_file g w1 of
                  (Inl err, w2) \<Rightarrow> (Inl err, w2)
                | (Inr u', w2) \<Rightarrow>
                    (case stat_size g w2 of
                       (Inl err, w3) \<Rightarrow> (Inl err, w3)
                     | (Inr n, w3) \<Rightarrow>
                         if n = 0 then create_config e w3 else parse_config e w3))))"

text \<open>\<open>__init__\<close>: the validation of \<open>enable_logger\<close>, the bootstrap step and the
  activation of the logger.\<close>

definition Engine_init :: "world \<Rightarrow> string option \<Rightarrow> pyval \<Rightarrow> (error + engine) \<times> world" where
  "Engine_init w gameconf enable_logger =
     (if \<not> isinstance_bool enable_logger then (Inl EnableLoggerTypeError, w)
      else if is_None enable_logger then (Inl EnableLoggerValueError, w)
      else
        (let e0 = \<lparr>self_enable_logger = truth enable_logger, self_init = False,
                   self_engineconf = engineconf_unset, self_gameconf = gameconf,
                   self_logger = None\<rparr>
         in case bootstrap e0 w of
              (Inl err, w1) \<Rightarrow> (Inl err, w1)
            | (Inr e1, w1) \<Rightarrow>
                (let e2 = e1\<lparr>self_logger := None\<rparr>
                 in if self_enable_logger e2 then
                      (case set_logger e2 w1 of
                         (Inl err, w2) \<Rightarrow> (Inl err, w2)
                       | (Inr e3, w2) \<Rightarrow>
                           (case (self_logger e3, log_fpath (self_engineconf e3)) of
                              (Some h, Some fpath) \<Rightarrow>
                                (Inr e3, logger_info h (''Logging information : '' @ fpath) w2)
                            | _ \<Rightarrow> (Inl AttributeError, w2)))
                    else (Inr e2, w1))))"


subsection \<open>The run loop\<close>

text \<open>
  The body of \<open>_mainloop\<close> spins until a keyboard interrupt arrives and then asks for a
  confirmation.  What the prompt delivers is an input of the model: a line of text, the end
  of the input stream, or a second interrupt while the prompt is waiting.  \<open>exit(msg)\<close>
  leaves the process with the message; any other exception leaves it as well, uncaught.
\<close>

datatype prompt_result = Answer string | PromptEOF | PromptInterrupt

datatype pass_result = Returned | SystemExit string | Raised error

definition mainloop_enter :: "engine \<Rightarrow> world \<Rightarrow> (error + unit) \<times> world" where
  "mainloop_enter e w =
     (if self_enable_logger e then
        (case self_logger e of
           None \<Rightarrow> (Inl AttributeError, w)
         | Some h \<Rightarrow> (Inr (), logger_info h ''Starting the main loop'' w))
      else (Inr (), w))"

text \<open>\<open>_mainloop\<close>, for one interrupt and the reply to its prompt.\<close>

definition mainloop_once :: "engine \<Rightarrow> prompt_result \<Rightarrow> world \<Rightarrow> pass_result \<times> world" where
  "mainloop_once e r w =
     (case mainloop_enter e w of
        (Inl err, w1) \<Rightarrow> (Raised err, w1)
      | (Inr u, w1) \<Rightarrow>
          (let w2 = emit (EvPrompt ''Are you sure you want to exit? [Y/n] : '') w1
           in case r of
                PromptEOF \<Rightarrow> (Raised EOFError, w2)
              | PromptInterrupt \<Rightarrow> (Raised KeyboardInterrupt, w2)
              | Answer choice \<Rightarrow>
                  if choice = [] then (SystemExit ''Engine exiting'', w2)
                  else (case py_lower choice of
                          [] \<Rightarrow> (Raised IndexError, w2)
                        | c # cs \<Rightarrow>
                            if c = CHR ''y'' then (SystemExit ''Engine exiting'', w2)
                            else (Returned, w2))))"

text \<open>\<open>mainloop\<close>, along the replies to the successive interrupts.  When the replies are
  used up the engine is inside \<open>_mainloop\<close> again, spinning.\<close>

datatype run_state = Running | Terminated string | Crashed error

fun mainloop :: "engine \<Rightarrow> prompt_result list \<Rightarrow> world \<Rightarrow> run_state \<times> world" where
  "mainloop e [] w =
     (case mainloop_enter e w of
        (Inl err, w1) \<Rightarrow> (Crashed err, w1)
      | (Inr u, w1) \<Rightarrow> (Running, w1))"
| "mainloop e (r # rs) w =
     (case mainloop_once e r w of
        (Returned, w1) \<Rightarrow> mainloop e rs w1
      | (SystemExit msg, w1) \<Rightarrow> (Terminated msg, w1)
      | (Raised err, w1) \<Rightarrow> (Crashed err, w1))"

text \<open>The methods a caller can invoke on a constructed engine.  A call that raises leaves
  the attributes as they were.\<close>

datatype method_call = CallGetLogger | CallSetLogger | CallMainloopOnce prompt_result

fun call_method :: "method_call \<Rightarrow> engine \<times> world \<Rightarrow> engine \<times> world" where
  "call_method CallGetLogger (e, w) = (e, w)"
| "call_method CallSetLogger (e, w) =
     (case set_logger e w of (Inl err, w1) \<Rightarrow> (e, w1) | (Inr e1, w1) \<Rightarrow> (e1, w1))"
| "call_method (CallMainloopOnce r) (e, w) = (e, snd (mainloop_once e r w))"

fun call_methods :: "method_call list \<Rightarrow> engine \<times> world \<Rightarrow> engine \<times> world" where
  "call_methods [] ew = ew"
| "call_methods (c # cs) ew = call_methods cs (call_method c ew)"

section \<open>Notions used to state the properties\<close>

text \<open>The configuration table of section 6 of the specification, and its text as the
  parser writes it.\<close>

definition spec_default_table :: "(string \<times> (string \<times> string) list) list" where
  "spec_default_table =
     [(''logger'', [(''log_file'', ''engine''), (''log_dir'', ''./logs''),
                    (''log_to_file'', ''disable''), (''log_to_stdio'', ''disable''),
                    (''enable_debug'', ''disable'')]),
      (''engine'', [(''enable_debug'', ''disable'')])]"

definition default_text :: string where
  "default_text = cparser_write \<lparr>cp_defaults = [], cp_sections = spec_default_table\<rparr>"

text \<open>The configuration of the engine that corresponds to the table.\<close>

definition default_engineconf :: engineconf_t where
  "default_engineconf =
     \<lparr>log_fpath = Some ''./logs'', log_fname = Some ''engine'', log_level = Some DEBUG,
      log_stdio = Some False, log_fileio = Some False\<rparr>"

text \<open>The operations requested between two states of the world.\<close>

definition io_since :: "world \<Rightarrow> world \<Rightarrow> io_event list" where
  "io_since w w' = drop (length (io_log w)) (io_log w')"

text \<open>A value that the parser writes on one line and reads back unchanged: no line break
  and no white space at either end.  A key that occupies the start of an option line.\<close>

definition plain_value :: "string \<Rightarrow> bool" where
  "plain_value v =
     (list_all (\<lambda>c. c \<noteq> nl \<and> c \<noteq> cr) v
      \<and> (v \<noteq> [] \<longrightarrow> \<not> py_isspace (hd v) \<and> \<not> py_isspace (last v)))"

definition plain_key :: "string \<Rightarrow> bool" where
  "plain_key k =
     (k \<noteq> [] \<and> list_all (\<lambda>c. \<not> py_isspace c \<and> \<not> is_delim c) k
      \<and> hd k \<noteq> CHR ''#'' \<and> hd k \<noteq> CHR '';'' \<and> hd k \<noteq> CHR ''['')"

text \<open>The text of a configuration file with the layout the engine writes.\<close>

definition conf_table ::
  "string \<Rightarrow> string \<Rightarrow> string \<Rightarrow> string \<Rightarrow> string \<Rightarrow> string
   \<Rightarrow> (string \<times> (string \<times> string) list) list" where
  "conf_table lf ld ltf lts ed eed =
     [(''logger'', [(''log_file'', lf), (''log_dir'', ld), (''log_to_file'', ltf),
                    (''log_to_stdio'', lts), (''enable_debug'', ed)]),
      (''engine'', [(''enable_debug'', eed)])]"

definition conf_text :: "string \<Rightarrow> string \<Rightarrow> string \<Rightarrow> string \<Rightarrow> string \<Rightarrow> string \<Rightarrow> string" where
  "conf_text lf ld ltf lts ed eed =
     cparser_write \<lparr>cp_defaults = [], cp_sections = conf_table lf ld ltf lts ed eed\<rparr>"

text \<open>The configuration of the engine that corresponds to such a file.\<close>

definition conf_engineconf :: "string \<Rightarrow> string \<Rightarrow> string \<Rightarrow> string \<Rightarrow> engineconf_t" where
  "conf_engineconf lf ld ltf lts =
     \<lparr>log_fpath = Some ld, log_fname = Some lf, log_level = Some DEBUG,
      log_stdio = Some (lts = ''enable''), log_fileio = Some (ltf = ''enable'')\<rparr>"

text \<open>The replies that confirm the shutdown.\<close>

definition confirms :: "string \<Rightarrow> bool" where
  "confirms r = (r = [] \<or> hd r = CHR ''y'' \<or> hd r = CHR ''Y'')"

section \<open>Facts about the parser and the helpers\<close>

lemma set_remove_percent_pairs: "set (remove_percent_pairs s) \<subseteq> set s"
  by (induction s rule: remove_percent_pairs.induct) auto

lemma match_key_set: "match_key s = Some (k, r) \<Longrightarrow> set r \<subseteq> set s"
proof -
  assume m: "match_key s = Some (k, r)"
  then obtain a b t where s: "s = a # b # t"
    by (auto simp: match_key_def split: list.splits)
  from m s have "r = drop 2 (dropWhile (\<lambda>x. x \<noteq> CHR '')'') t)"
    by (auto simp: match_key_def Let_def split: if_splits)
  then have "set r \<subseteq> set (dropWhile (\<lambda>x. x \<noteq> CHR '')'') t)"
    by (simp add: set_drop_subset)
  also have "\<dots> \<subseteq> set t" by (rule set_dropWhileD [THEN subsetI]) 
  finally show ?thesis using s by auto
qed

lemma set_remove_keys: "set (remove_keys s) \<subseteq> set s"
proof (induction s rule: remove_keys.induct)
  case (1 s)
  show ?case
  proof (cases "match_key s")
    case None
    show ?thesis
    proof (cases s)
      case Nil
      with None show ?thesis by (simp add: remove_keys.simps [of "[]"])
    next
      case (Cons c cs)
      with None have "remove_keys s = c # remove_keys cs"
        by (simp add: remove_keys.simps [of "c # cs"])
      moreover have "set (remove_keys cs) \<subseteq> set cs" by (rule 1(1) [OF None Cons])
      ultimately show ?thesis using Cons by auto
    qed
  next
    case (Some kr)
    obtain k r where kr: "kr = (k, r)" by (cases kr)
    have eq: "remove_keys s = remove_keys r"
      by (subst remove_keys.simps) (simp add: Some kr)
    have "set (remove_keys r) \<subseteq> set r"
      by (rule 1(2) [OF Some kr [symmetric]])
    with eq match_key_set [of s k r] Some kr show ?thesis by auto
  qed
qed

lemma before_set_plain: "CHR ''%'' \<notin> set v \<Longrightarrow> before_set v = Inr v"
  using set_remove_keys [of "remove_percent_pairs v"] set_remove_percent_pairs [of v]
  by (auto simp: before_set_def)

lemma interpolate_plain:
  "CHR ''%'' \<notin> set v \<Longrightarrow> 0 < fuel \<Longrightarrow> interpolate_some fuel m v = Inr v"
proof -
  assume a: "CHR ''%'' \<notin> set v" and f: "0 < fuel"
  then have "dropWhile (\<lambda>c. c \<noteq> CHR ''%'') v = []" by auto
  with f show ?thesis by (simp add: interpolate_some.simps [of fuel m v] Let_def)
qed

lemma default_config_fresh:
  "default_config ConfigParser =
     Inr \<lparr>cp_defaults = [],
          cp_sections =
            [(''logger'', [(''log_file'', ''engine''), (''log_dir'', ''./logs''),
                           (''log_to_file'', ''disable''), (''log_to_stdio'', ''disable''),
                           (''enable_debug'', ''disable'')]),
             (''engine'', [(''enable_debug'', ''disable'')])]\<rparr>"
  by (simp add: default_config_def then_setitem_def then_setitem_section_def setitem_def
      setitem_section_def ConfigParser_def before_set_plain dict_has_def default_section_def
      py_lower_def LOGGER_SECTION_def ENGINE_SECTION_def LOGFILE_OPTION_def LOGDIR_OPTION_def
      LOGTOFILE_OPTION_def LOGTOSTDIO_OPTION_def ENABLE_DEBUG_OPTION_def LOGFILE_VALUE_def
      LOGDIR_VALUE_def LOGTOFILE_VALUE_def LOGTOSTDIO_VALUE_def ENABLE_DEBUG_VALUE_def
      DISABLE_def)

lemma read_string_empty: "read_string ConfigParser [] = Inr ConfigParser"
  by (simp add: read_string_def ConfigParser_def unjoin_items_def join_items_def)

lemma default_text_eq:
  "default_text =
     concat (map (\<lambda>l. l @ [nl])
       [''[logger]'', ''log_file = engine'', ''log_dir = ./logs'', ''log_to_file = disable'',
        ''log_to_stdio = disable'', ''enable_debug = disable'', [],
        ''[engine]'', ''enable_debug = disable'', []])"
  by (simp add: default_text_def spec_default_table_def cparser_write_def write_section_def
      py_replace_char_def nl_def)

lemma default_text_nonempty: "default_text \<noteq> []"
  by (simp add: default_text_eq)

lemma read_default_text:
  "read_string ConfigParser default_text = Inr \<lparr>cp_defaults = [], cp_sections = spec_default_table\<rparr>"
  by (simp add: default_text_eq read_string_def ConfigParser_def unjoin_items_def join_items_def
      nl_def cr_def read_line_def py_strip_def py_lstrip_def py_rstrip_def py_isspace_def
      match_section_def match_option_def is_delim_def optname_set_def cursect_update_def
      value_append_def dict_has_def default_section_def py_lower_def join_value_def
      spec_default_table_def Let_def)

lemma create_config_seeds:
  assumes g: "self_gameconf e = Some P"
    and f: "files w P = Some []"
  shows "create_config e w =
           (Inr (if self_enable_logger e then e\<lparr>self_engineconf := default_engineconf\<rparr> else e),
            w\<lparr>files := (files w)(P \<mapsto> default_text), io_log := io_log w @ [EvRead P, EvWrite P]\<rparr>)"
  using g f
  by (simp add: create_config_def cparser_read_def get_conf_parser_def read_string_empty
      default_config_fresh open_write_def emit_def Let_def default_text_def spec_default_table_def
      default_engineconf_def LOGDIR_VALUE_def LOGFILE_VALUE_def LOGTOSTDIO_VALUE_def
      LOGTOFILE_VALUE_def ENABLE_def DISABLE_def)

lemma bootstrap_seeds:
  assumes g: "self_gameconf e = Some P"
    and f: "files w P = None \<or> files w P = Some []"
    and d: "\<not> refused w (py_slice_to P (py_rfind P sep))"
    and r: "\<not> refused w P"
  shows "bootstrap e w =
           (Inr (if self_enable_logger e then e\<lparr>self_engineconf := default_engineconf\<rparr> else e),
            w\<lparr>files := (files w)(P \<mapsto> default_text),
              dirs := insert (py_slice_to P (py_rfind P sep)) (dirs w),
              io_log := io_log w @ [EvCreateDir (Some (py_slice_to P (py_rfind P sep))), EvCreateFile P,
                                   EvStat P, EvRead P, EvWrite P]\<rparr>)"
proof -
  let ?d = "py_slice_to P (py_rfind P sep)"
  let ?w3 = "w\<lparr>files := (files w)(P \<mapsto> []), dirs := insert ?d (dirs w),
               io_log := io_log w @ [EvCreateDir (Some ?d), EvCreateFile P, EvStat P]\<rparr>"
  have b: "bootstrap e w = create_config e ?w3"
    using g f d r
    by (auto simp: bootstrap_def create_dir_def create_file_def stat_size_def emit_def Let_def
        fun_upd_idem intro!: arg_cong [where f = "create_config e"] world.equality)
  have "files ?w3 P = Some []" by simp
  from create_config_seeds [OF g this] b show ?thesis by simp
qed

lemma set_logger_files: "files (snd (set_logger e w)) = files w"
  by (auto simp: set_logger_def create_dir_def setup_logger_def emit_def Let_def
      split: option.splits prod.splits sum.splits)

lemma logger_info_files: "files (logger_info h m w) = files w"
  by (simp add: logger_info_def emit_def)

lemma Engine_init_after_bootstrap:
  "bootstrap \<lparr>self_enable_logger = b, self_init = False, self_engineconf = engineconf_unset,
              self_gameconf = g, self_logger = None\<rparr> w = (Inr e1, w1)
   \<Longrightarrow> files (snd (Engine_init w g (PyBool b))) = files w1"
  using set_logger_files [of "e1\<lparr>self_logger := None\<rparr>" w1]
  by (auto simp: Engine_init_def Let_def logger_info_files split: prod.splits sum.splits option.splits)

lemma parse_config_frame:
  "self_gameconf e = Some P \<Longrightarrow>
   files (snd (parse_config e w)) = files w \<and> dirs (snd (parse_config e w)) = dirs w
   \<and> io_log (snd (parse_config e w)) = io_log w @ [EvRead P]"
  by (auto simp: parse_config_def cparser_read_def emit_def Let_def
      split: option.splits sum.splits prod.splits)

lemma bootstrap_refused: "refused (snd (bootstrap e w)) = refused w"
  by (auto simp: bootstrap_def create_dir_def create_file_def stat_size_def emit_def Let_def
      parse_config_def create_config_def cparser_read_def open_write_def
      split: prod.splits sum.splits option.splits)

lemma bootstrap_twice:
  assumes "self_gameconf e2 = self_gameconf e1"
  shows "files (snd (bootstrap e2 (snd (bootstrap e1 w)))) = files (snd (bootstrap e1 w))
         \<and> dirs (snd (bootstrap e2 (snd (bootstrap e1 w)))) = dirs (snd (bootstrap e1 w))"
proof (cases "self_gameconf e1")
  case None
  with assms show ?thesis by (simp add: bootstrap_def)
next
  case (Some P)
  let ?d = "py_slice_to P (py_rfind P sep)"
  let ?w1 = "snd (bootstrap e1 w)"
  have g2: "self_gameconf e2 = Some P" using assms Some by simp
  show ?thesis
  proof (cases "refused w ?d")
    case True
    then have "refused ?w1 ?d" by (simp add: bootstrap_refused)
    with g2 show ?thesis by (simp add: bootstrap_def create_dir_def emit_def Let_def)
  next
    case nd: False
    have d1: "?d \<in> dirs ?w1"
      using Some nd parse_config_frame [of e1 P]
      by (auto simp: bootstrap_def create_dir_def create_file_def stat_size_def emit_def Let_def
          create_config_def cparser_read_def open_write_def
          split: prod.splits sum.splits option.splits)
    show ?thesis
    proof (cases "refused w P")
      case True
      then have "refused ?w1 P" by (simp add: bootstrap_refused)
      with g2 d1 show ?thesis
        by (auto simp: bootstrap_def create_dir_def create_file_def emit_def Let_def insert_absorb)
    next
      case np: False
      have "\<exists>c. files ?w1 P = Some c \<and> c \<noteq> []"
      proof (cases "files w P = None \<or> files w P = Some []")
        case True
        from bootstrap_seeds [OF Some True nd np] show ?thesis
          by (simp add: default_text_nonempty)
      next
        case False
        then obtain c where c: "files w P = Some c" "c \<noteq> []" by auto
        have "files ?w1 P = Some c"
          using Some c nd np parse_config_frame [of e1 P]
          by (auto simp: bootstrap_def create_dir_def create_file_def stat_size_def emit_def
              Let_def split: prod.splits sum.splits)
        with c show ?thesis by simp
      qed
      then obtain c where c: "files ?w1 P = Some c" "c \<noteq> []" by auto
      have "files (snd (bootstrap e2 ?w1)) = files ?w1"
        using g2 c parse_config_frame [of e2 P]
        by (auto simp: bootstrap_def create_dir_def create_file_def stat_size_def emit_def Let_def
            split: prod.splits sum.splits)
      moreover have "dirs (snd (bootstrap e2 ?w1)) = dirs ?w1"
        using g2 c d1 parse_config_frame [of e2 P]
        by (auto simp: bootstrap_def create_dir_def create_file_def stat_size_def emit_def Let_def
            insert_absorb split: prod.splits sum.splits)
      ultimately show ?thesis by simp
    qed
  qed
qed

subsection \<open>Reading back what the parser wrote\<close>

lemma universal_newlines_id: "cr \<notin> set s \<Longrightarrow> universal_newlines s = s"
  by (induction s rule: universal_newlines.induct) auto

lemma file_lines_line:
  "nl \<notin> set l \<Longrightarrow> file_lines cur (l @ nl # rest) = (rev cur @ l) # file_lines [] rest"
  by (induction l arbitrary: cur) auto

lemma file_lines_concat:
  "\<forall>l \<in> set ls. nl \<notin> set l \<Longrightarrow> file_lines [] (concat (map (\<lambda>l. l @ [nl]) ls)) = ls"
  by (induction ls) (auto simp: file_lines_line)

lemma replace_nl_id: "nl \<notin> set v \<Longrightarrow> py_replace_char nl new v = v"
  by (induction v) (auto simp: py_replace_char_def)

lemma py_rstrip_nospace: "s \<noteq> [] \<Longrightarrow> \<not> py_isspace (last s) \<Longrightarrow> py_rstrip s = s"
  by (cases s rule: rev_cases) (auto simp: py_rstrip_def)

lemma py_rstrip_append_nospace:
  "s \<noteq> [] \<Longrightarrow> \<not> py_isspace (last s) \<Longrightarrow> py_rstrip (t @ s) = t @ s"
  by (cases s rule: rev_cases) (auto simp: py_rstrip_def)

lemma py_rstrip_append_space:
  "list_all py_isspace t \<Longrightarrow> py_rstrip (s @ t) = py_rstrip s"
  by (induction t rule: rev_induct) (auto simp: py_rstrip_def)

lemma py_lstrip_nospace: "s \<noteq> [] \<Longrightarrow> \<not> py_isspace (hd s) \<Longrightarrow> py_lstrip s = s"
  by (cases s) (auto simp: py_lstrip_def)

lemma py_rstrip_plain: "plain_value v \<Longrightarrow> py_rstrip v = v"
proof (cases "v = []")
  case True
  then show ?thesis by (simp add: py_rstrip_def)
next
  case False
  assume "plain_value v"
  with False show ?thesis by (simp add: plain_value_def py_rstrip_nospace)
qed

lemma py_lstrip_plain: "plain_value v \<Longrightarrow> py_lstrip v = v"
proof (cases "v = []")
  case True
  then show ?thesis by (simp add: py_lstrip_def)
next
  case False
  assume "plain_value v"
  with False show ?thesis by (simp add: plain_value_def py_lstrip_nospace)
qed

lemma py_strip_plain: "plain_value v \<Longrightarrow> py_strip v = v"
  by (simp add: py_strip_def py_rstrip_plain py_lstrip_plain)

lemma isspace_space: "py_isspace (CHR '' '')" and isspace_nl: "py_isspace nl"
  by (simp_all add: py_isspace_def nl_def)

lemma join_value_single: "plain_value v \<Longrightarrow> join_value (Lines [v]) = v"
  by (simp add: join_value_def py_rstrip_plain)

lemma join_value_blank: "plain_value v \<Longrightarrow> join_value (Lines [v, []]) = v"
  using py_rstrip_append_space [of "[nl]" v]
  by (simp add: join_value_def py_rstrip_plain isspace_nl)

lemma plain_key_facts:
  assumes "plain_key k"
  shows "k \<noteq> []" and "\<forall>c \<in> set k. \<not> py_isspace c" and "\<forall>c \<in> set k. \<not> is_delim c"
    and "\<not> py_isspace (hd k)" and "\<not> py_isspace (last k)"
    and "hd k \<noteq> CHR ''#''" and "hd k \<noteq> CHR '';''" and "hd k \<noteq> CHR ''[''"
  using assms by (auto simp: plain_key_def list_all_iff)

lemma option_line_strip:
  assumes k: "plain_key k" and v: "plain_value v"
  shows "py_strip (k @ '' = '' @ v) = (if v = [] then k @ '' ='' else k @ '' = '' @ v)"
proof (cases "v = []")
  case True
  have "py_rstrip ((k @ '' ='') @ '' '') = py_rstrip (k @ '' ='')"
    by (rule py_rstrip_append_space) (simp add: isspace_space)
  also have "\<dots> = k @ '' =''"
    by (rule py_rstrip_append_nospace) (simp_all add: py_isspace_def)
  finally have "py_rstrip (k @ '' = '') = k @ '' =''" by simp
  moreover have "py_lstrip (k @ '' ='') = k @ '' =''"
    using plain_key_facts(1,4) [OF k] by (intro py_lstrip_nospace) simp_all
  ultimately show ?thesis using True by (simp add: py_strip_def)
next
  case False
  with v have "\<not> py_isspace (last v)" by (simp add: plain_value_def)
  with False have "py_rstrip ((k @ '' = '') @ v) = (k @ '' = '') @ v"
    by (intro py_rstrip_append_nospace)
  moreover have "py_lstrip (k @ '' = '' @ v) = k @ '' = '' @ v"
    using plain_key_facts(1,4) [OF k] by (intro py_lstrip_nospace) simp_all
  ultimately show ?thesis using False by (simp add: py_strip_def)
qed

lemma option_line_match:
  assumes k: "plain_key k" and v: "plain_value v"
  shows "match_option (if v = [] then k @ '' ='' else k @ '' = '' @ v) = Some (k, v)"
proof -
  let ?rest = "(if v = [] then [] else '' '' @ v)"
  have line: "(if v = [] then k @ '' ='' else k @ '' = '' @ v) = k @ '' '' @ ''='' @ ?rest"
    by simp
  have nd: "\<forall>c \<in> set (k @ '' ''). \<not> is_delim c"
    using plain_key_facts(3) [OF k] by (simp add: is_delim_def)
  have tw: "takeWhile (\<lambda>c. \<not> is_delim c) ((k @ '' '') @ ''='' @ ?rest) = k @ '' ''"
    using nd by (subst takeWhile_append2) (auto simp: is_delim_def)
  have dw: "dropWhile (\<lambda>c. \<not> is_delim c) ((k @ '' '') @ ''='' @ ?rest) = ''='' @ ?rest"
    using nd by (subst dropWhile_append2) (auto simp: is_delim_def)
  have r: "py_rstrip (k @ '' '') = k"
    using py_rstrip_append_space [of "'' ''" k] py_rstrip_nospace [of k] plain_key_facts(1,5) [OF k]
    by (simp add: isspace_space)
  have l: "py_lstrip ?rest = v"
    using py_lstrip_plain [OF v] by (simp add: py_lstrip_def isspace_space)
  show ?thesis
    unfolding line match_option_def using tw dw r l by (simp add: Let_def)
qed

lemma read_line_option:
  assumes k: "plain_key k" and v: "plain_value v" and c: "rs_cursect st \<noteq> NoSect"
  shows "read_line st (k @ '' = '' @ v) =
     (if (rs_sectname st, py_lower k) \<in> set (rs_added_options st)
      then Inl (DuplicateOptionError (rs_sectname st) (py_lower k))
      else Inr (cursect_update (\<lambda>d. dict_set d (py_lower k) (Lines [v]))
             (st\<lparr>rs_indent := 0, rs_optname := Some (py_lower k),
                 rs_added_options := (rs_sectname st, py_lower k) # rs_added_options st\<rparr>)))"
proof -
  let ?s = "(if v = [] then k @ '' ='' else k @ '' = '' @ v)"
  have s: "py_strip (k @ '' = '' @ v) = ?s" by (rule option_line_strip [OF k v])
  have hd: "?s = hd k # tl ?s" using plain_key_facts(1) [OF k] by (cases k) auto
  have nc: "take 1 ?s \<noteq> ''#''" "take 1 ?s \<noteq> '';''" "?s \<noteq> []"
    using plain_key_facts(1,6,7) [OF k] by (cases k; auto)+
  have ind: "takeWhile py_isspace (k @ '' = '' @ v) = []"
    using plain_key_facts(1,4) [OF k] by (cases k) auto
  have ms: "match_section ?s = None"
    using plain_key_facts(1,8) [OF k] by (cases k) (auto simp: match_section_def)
  have mo: "match_option ?s = Some (k, v)" by (rule option_line_match [OF k v])
  have kr: "py_rstrip k = k"
    using plain_key_facts(1,5) [OF k] by (simp add: py_rstrip_nospace)
  show ?thesis
    unfolding read_line_def s
    using nc ind ms mo kr c plain_key_facts(1) [OF k] py_strip_plain [OF v]
    by (simp add: Let_def cong: if_cong)
qed

lemma plain_value_no_nl: "plain_value v \<Longrightarrow> nl \<notin> set v" and
  plain_value_no_cr: "plain_value v \<Longrightarrow> cr \<notin> set v"
  by (auto simp: plain_value_def list_all_iff)

lemma conf_text_lines:
  assumes "plain_value lf" "plain_value ld" "plain_value ltf" "plain_value lts"
    "plain_value ed" "plain_value eed"
  shows "conf_text lf ld ltf lts ed eed =
     concat (map (\<lambda>l. l @ [nl])
       [''[logger]'', ''log_file'' @ '' = '' @ lf, ''log_dir'' @ '' = '' @ ld,
        ''log_to_file'' @ '' = '' @ ltf, ''log_to_stdio'' @ '' = '' @ lts,
        ''enable_debug'' @ '' = '' @ ed, [],
        ''[engine]'', ''enable_debug'' @ '' = '' @ eed, []])"
  using assms [THEN plain_value_no_nl]
  by (simp add: conf_text_def conf_table_def cparser_write_def write_section_def replace_nl_id)

lemma conf_text_file_lines:
  assumes "plain_value lf" "plain_value ld" "plain_value ltf" "plain_value lts"
    "plain_value ed" "plain_value eed"
  shows "file_lines [] (universal_newlines (conf_text lf ld ltf lts ed eed)) =
       [''[logger]'', ''log_file'' @ '' = '' @ lf, ''log_dir'' @ '' = '' @ ld,
        ''log_to_file'' @ '' = '' @ ltf, ''log_to_stdio'' @ '' = '' @ lts,
        ''enable_debug'' @ '' = '' @ ed, [],
        ''[engine]'', ''enable_debug'' @ '' = '' @ eed, []]"
proof -
  let ?ls = "[''[logger]'', ''log_file'' @ '' = '' @ lf, ''log_dir'' @ '' = '' @ ld,
        ''log_to_file'' @ '' = '' @ ltf, ''log_to_stdio'' @ '' = '' @ lts,
        ''enable_debug'' @ '' = '' @ ed, [],
        ''[engine]'', ''enable_debug'' @ '' = '' @ eed, []]"
  have t: "conf_text lf ld ltf lts ed eed = concat (map (\<lambda>l. l @ [nl]) ?ls)"
    by (rule conf_text_lines [OF assms])
  have "cr \<notin> set (concat (map (\<lambda>l. l @ [nl]) ?ls))"
    using assms [THEN plain_value_no_cr] by (simp add: cr_def nl_def)
  then have u: "universal_newlines (concat (map (\<lambda>l. l @ [nl]) ?ls)) = concat (map (\<lambda>l. l @ [nl]) ?ls)"
    by (rule universal_newlines_id)
  have "\<forall>l \<in> set ?ls. nl \<notin> set l"
    using assms [THEN plain_value_no_nl] by (simp add: nl_def)
  then have "file_lines [] (concat (map (\<lambda>l. l @ [nl]) ?ls)) = ?ls"
    by (rule file_lines_concat)
  with t u show ?thesis by simp
qed

lemma read_line_blank:
  "read_line st [] =
     (if rs_cursect st \<noteq> NoSect \<and> optname_set (rs_optname st)
      then Inr (cursect_update (value_append (the (rs_optname st)) []) st) else Inr st)"
  by (simp add: read_line_def py_strip_def py_lstrip_def py_rstrip_def)

lemma read_line_header:
  assumes "name \<noteq> []" and "list_all (\<lambda>c. \<not> py_isspace c \<and> c \<noteq> CHR '']'') name"
  shows "read_line st (''['' @ name @ '']'') =
     (let st1 = st\<lparr>rs_indent := 0\<rparr> in
      if dict_has (rs_sections st1) name then
        (if name \<in> set (rs_added_sections st1) then Inl (DuplicateSectionError name)
         else Inr (st1\<lparr>rs_cursect := NamedSect name, rs_sectname := name,
                       rs_added_sections := name # rs_added_sections st1, rs_optname := None\<rparr>))
      else if name = default_section then
        Inr (st1\<lparr>rs_cursect := DefaultSect, rs_sectname := name, rs_optname := None\<rparr>)
      else
        Inr (st1\<lparr>rs_sections := rs_sections st1 @ [(name, [])],
                 rs_cursect := NamedSect name, rs_sectname := name,
                 rs_added_sections := name # rs_added_sections st1, rs_optname := None\<rparr>))"
proof -
  have ns: "\<forall>c \<in> set name. c \<noteq> CHR '']''" using assms(2) by (simp add: list_all_iff)
  have "py_rstrip ((''['' @ name) @ '']'') = (''['' @ name) @ '']''"
    by (rule py_rstrip_append_nospace) (simp_all add: py_isspace_def)
  then have s: "py_strip (''['' @ name @ '']'') = ''['' @ name @ '']''"
    by (simp add: py_strip_def py_lstrip_def py_isspace_def)
  have tw: "takeWhile (\<lambda>x. x \<noteq> CHR '']'') (name @ '']'') = name"
    using ns by (subst takeWhile_append2) auto
  have dw: "dropWhile (\<lambda>x. x \<noteq> CHR '']'') (name @ '']'') = '']''"
    using ns by (subst dropWhile_append2) auto
  have ms: "match_section (''['' @ name @ '']'') = Some name"
    using tw dw assms(1) by (simp add: match_section_def)
  have ind: "takeWhile py_isspace (''['' @ name @ '']'') = []"
    by (simp add: py_isspace_def)
  show ?thesis
    unfolding read_line_def s using ms ind by (simp add: Let_def)
qed

lemma read_conf_text:
  assumes "plain_value lf" "plain_value ld" "plain_value ltf" "plain_value lts"
    "plain_value ed" "plain_value eed"
  shows "read_string ConfigParser (conf_text lf ld ltf lts ed eed) =
           Inr \<lparr>cp_defaults = [], cp_sections = conf_table lf ld ltf lts ed eed\<rparr>"
proof -
  have keys: "plain_key ''log_file''" "plain_key ''log_dir''" "plain_key ''log_to_file''"
    "plain_key ''log_to_stdio''" "plain_key ''enable_debug''"
    by (simp_all add: plain_key_def py_isspace_def is_delim_def)
  have h1: "read_line st ''[logger]'' = read_line st (''['' @ ''logger'' @ '']'')"
    and h2: "read_line st ''[engine]'' = read_line st (''['' @ ''engine'' @ '']'')" for st
    by simp_all
  note hdr = read_line_header [of "''logger''", simplified py_isspace_def, simplified]
    read_line_header [of "''engine''", simplified py_isspace_def, simplified]
  note opt = read_line_option [OF keys(1) assms(1), simplified]
    read_line_option [OF keys(2) assms(2), simplified]
    read_line_option [OF keys(3) assms(3), simplified]
    read_line_option [OF keys(4) assms(4), simplified]
    read_line_option [OF keys(5) assms(5), simplified]
    read_line_option [OF keys(5) assms(6), simplified]
  have fl: "file_lines [] (universal_newlines (conf_text lf ld ltf lts ed eed)) =
       [''[logger]'', ''log_file = '' @ lf, ''log_dir = '' @ ld,
        ''log_to_file = '' @ ltf, ''log_to_stdio = '' @ lts,
        ''enable_debug = '' @ ed, [],
        ''[engine]'', ''enable_debug = '' @ eed, []]"
    using conf_text_file_lines [OF assms] by simp
  show ?thesis
    unfolding read_string_def fl
    by (simp add: ConfigParser_def unjoin_items_def join_items_def hdr
        read_line_blank opt
        cursect_update_def value_append_def optname_set_def dict_has_def default_section_def
        py_lower_def join_value_single [OF assms(1)] join_value_single [OF assms(2)]
        join_value_single [OF assms(3)] join_value_single [OF assms(4)]
        join_value_blank [OF assms(5)] join_value_blank [OF assms(6)]
        conf_table_def Let_def)
qed

lemma conf_text_nonempty:
  assumes "plain_value lf" "plain_value ld" "plain_value ltf" "plain_value lts"
    "plain_value ed" "plain_value eed"
  shows "conf_text lf ld ltf lts ed eed \<noteq> []"
  by (simp add: conf_text_lines [OF assms])

lemma getitem_conf_table:
  assumes "CHR ''%'' \<notin> set lf" "CHR ''%'' \<notin> set ld" "CHR ''%'' \<notin> set ltf" "CHR ''%'' \<notin> set lts"
  shows "getitem \<lparr>cp_defaults = [], cp_sections = conf_table lf ld ltf lts ed eed\<rparr>
           LOGGER_SECTION LOGFILE_OPTION = Inr lf"
    and "getitem \<lparr>cp_defaults = [], cp_sections = conf_table lf ld ltf lts ed eed\<rparr>
           LOGGER_SECTION LOGDIR_OPTION = Inr ld"
    and "getitem \<lparr>cp_defaults = [], cp_sections = conf_table lf ld ltf lts ed eed\<rparr>
           LOGGER_SECTION LOGTOFILE_OPTION = Inr ltf"
    and "getitem \<lparr>cp_defaults = [], cp_sections = conf_table lf ld ltf lts ed eed\<rparr>
           LOGGER_SECTION LOGTOSTDIO_OPTION = Inr lts"
  using assms
  by (simp_all add: getitem_def has_option_def cparser_get_def unify_values_def conf_table_def
      dict_has_def default_section_def py_lower_def interpolate_plain LOGGER_SECTION_def
      LOGFILE_OPTION_def LOGDIR_OPTION_def LOGTOFILE_OPTION_def LOGTOSTDIO_OPTION_def)

lemma parse_config_conf:
  assumes p: "plain_value lf" "plain_value ld" "plain_value ltf" "plain_value lts"
      "plain_value ed" "plain_value eed"
    and n: "CHR ''%'' \<notin> set lf" "CHR ''%'' \<notin> set ld" "CHR ''%'' \<notin> set ltf"
      "CHR ''%'' \<notin> set lts"
    and g: "self_gameconf e = Some P"
    and en: "self_enable_logger e"
    and f: "files w P = Some (conf_text lf ld ltf lts ed eed)"
  shows "parse_config e w =
           (Inr (e\<lparr>self_engineconf := conf_engineconf lf ld ltf lts\<rparr>), emit (EvRead P) w)"
  using g en f
  by (simp add: parse_config_def cparser_read_def get_conf_parser_def read_conf_text [OF p]
      getitem_conf_table [OF n] conf_engineconf_def ENABLE_def Let_def)

lemma Engine_init_reads_conf:
  assumes p: "plain_value lf" "plain_value ld" "plain_value ltf" "plain_value lts"
      "plain_value ed" "plain_value eed"
    and n: "CHR ''%'' \<notin> set lf" "CHR ''%'' \<notin> set ld" "CHR ''%'' \<notin> set ltf"
      "CHR ''%'' \<notin> set lts"
    and f: "files w P = Some (conf_text lf ld ltf lts ed eed)"
    and r: "\<not> refused w (py_slice_to P (py_rfind P sep))" "\<not> refused w P" "\<not> refused w ld"
  shows "\<exists>w'. Engine_init w (Some P) (PyBool True) =
           (Inr \<lparr>self_enable_logger = True, self_init = False,
                 self_engineconf = conf_engineconf lf ld ltf lts,
                 self_gameconf = Some P,
                 self_logger = Some \<lparr>lg_fpath = ld, lg_fname = lf @ ''_'' @ today w @ ''.log'',
                                      lg_level = DEBUG, lg_stdio = (lts = ''enable''),
                                      lg_fileio = (ltf = ''enable'')\<rparr>\<rparr>, w')
         \<and> files w' = files w"
proof -
  let ?e0 = "\<lparr>self_enable_logger = True, self_init = False, self_engineconf = engineconf_unset,
              self_gameconf = Some P, self_logger = None\<rparr>"
  let ?d = "py_slice_to P (py_rfind P sep)"
  let ?w3 = "emit (EvStat P) (emit (EvCreateFile P) ((emit (EvCreateDir (Some ?d)) w)\<lparr>dirs := insert ?d (dirs w)\<rparr>))"
  have f3: "files ?w3 P = Some (conf_text lf ld ltf lts ed eed)"
    using f by (simp add: emit_def)
  have ne: "conf_text lf ld ltf lts ed eed \<noteq> []" by (rule conf_text_nonempty [OF p])
  have "bootstrap ?e0 w = parse_config ?e0 ?w3"
    using f r ne
    by (auto simp: bootstrap_def create_dir_def create_file_def stat_size_def emit_def Let_def
        intro!: arg_cong [where f = "parse_config ?e0"] world.equality)
  also have "\<dots> = (Inr (?e0\<lparr>self_engineconf := conf_engineconf lf ld ltf lts\<rparr>), emit (EvRead P) ?w3)"
    by (rule parse_config_conf [OF p n _ _ f3]) simp_all
  finally have b: "bootstrap ?e0 w =
      (Inr (?e0\<lparr>self_engineconf := conf_engineconf lf ld ltf lts\<rparr>), emit (EvRead P) ?w3)" .
  show ?thesis
    using r(3)
    by (simp add: Engine_init_def b set_logger_def create_dir_def setup_logger_def emit_def
        conf_engineconf_def logger_info_def Let_def)
qed

subsection \<open>What the constructor keeps and sets\<close>

lemma parse_config_sets_level:
  "self_enable_logger e \<Longrightarrow> parse_config e w = (Inr e', w') \<Longrightarrow>
   log_level (self_engineconf e') = Some DEBUG \<and> log_fpath (self_engineconf e') \<noteq> None
   \<and> log_fname (self_engineconf e') \<noteq> None \<and> log_stdio (self_engineconf e') \<noteq> None
   \<and> log_fileio (self_engineconf e') \<noteq> None"
  by (auto simp: parse_config_def split: option.splits prod.splits sum.splits)

lemma create_config_sets_level:
  "self_enable_logger e \<Longrightarrow> create_config e w = (Inr e', w') \<Longrightarrow>
   log_level (self_engineconf e') = Some DEBUG \<and> log_fpath (self_engineconf e') \<noteq> None
   \<and> log_fname (self_engineconf e') \<noteq> None \<and> log_stdio (self_engineconf e') \<noteq> None
   \<and> log_fileio (self_engineconf e') \<noteq> None"
  by (auto simp: create_config_def split: option.splits prod.splits sum.splits)

lemma parse_config_keeps:
  "parse_config e w = (Inr e', w') \<Longrightarrow>
   self_enable_logger e' = self_enable_logger e \<and> self_logger e' = self_logger e
   \<and> self_gameconf e' = self_gameconf e
   \<and> (\<not> self_enable_logger e \<longrightarrow> self_engineconf e' = self_engineconf e)"
  by (auto simp: parse_config_def split: option.splits prod.splits sum.splits if_splits)

lemma create_config_keeps:
  "create_config e w = (Inr e', w') \<Longrightarrow>
   self_enable_logger e' = self_enable_logger e \<and> self_logger e' = self_logger e
   \<and> self_gameconf e' = self_gameconf e
   \<and> (\<not> self_enable_logger e \<longrightarrow> self_engineconf e' = self_engineconf e)"
  by (auto simp: create_config_def split: option.splits prod.splits sum.splits if_splits)

lemma bootstrap_cases:
  assumes "bootstrap e w = (Inr e', w')"
  shows "(self_gameconf e = None \<and> e' = e \<and> w' = w)
         \<or> (\<exists>w3. self_gameconf e \<noteq> None
                \<and> (create_config e w3 = (Inr e', w') \<or> parse_config e w3 = (Inr e', w')))"
  using assms
  by (auto simp: bootstrap_def split: option.splits prod.splits sum.splits if_splits)

lemma bootstrap_keeps:
  assumes "bootstrap e w = (Inr e', w')"
  shows "self_enable_logger e' = self_enable_logger e \<and> self_logger e' = self_logger e
         \<and> self_gameconf e' = self_gameconf e
         \<and> (\<not> self_enable_logger e \<longrightarrow> self_engineconf e' = self_engineconf e)"
  using bootstrap_cases [OF assms] parse_config_keeps create_config_keeps by blast

lemma bootstrap_sets_level:
  assumes "bootstrap e w = (Inr e', w')" and "self_enable_logger e" and "self_gameconf e \<noteq> None"
  shows "log_level (self_engineconf e') = Some DEBUG"
  using bootstrap_cases [OF assms(1)] assms(2,3) parse_config_sets_level create_config_sets_level
  by blast

lemma set_logger_result:
  assumes "set_logger e w = (Inr e', w')"
  shows "self_engineconf e' = self_engineconf e \<and> self_enable_logger e' = self_enable_logger e
         \<and> (\<exists>h. self_logger e' = Some h \<and> Some (lg_level h) = log_level (self_engineconf e))"
  using assms
  by (auto simp: set_logger_def create_dir_def setup_logger_def Let_def
      split: option.splits prod.splits sum.splits if_splits)

lemma Engine_init_seeds:
  assumes f: "files w P = None \<or> files w P = Some []"
    and r: "\<not> refused w (py_slice_to P (py_rfind P sep))" "\<not> refused w P"
      "\<not> refused w ''./logs''"
  shows "\<exists>w'. Engine_init w (Some P) (PyBool True) =
           (Inr \<lparr>self_enable_logger = True, self_init = False,
                 self_engineconf = default_engineconf, self_gameconf = Some P,
                 self_logger = Some \<lparr>lg_fpath = ''./logs'',
                                      lg_fname = ''engine_'' @ today w @ ''.log'',
                                      lg_level = DEBUG, lg_stdio = False, lg_fileio = False\<rparr>\<rparr>,
            w')"
proof -
  let ?e0 = "\<lparr>self_enable_logger = True, self_init = False, self_engineconf = engineconf_unset,
              self_gameconf = Some P, self_logger = None\<rparr>"
  have "self_gameconf ?e0 = Some P" by simp
  from bootstrap_seeds [OF this f r(1,2)] show ?thesis
    using r(3)
    by (simp add: Engine_init_def set_logger_def create_dir_def setup_logger_def emit_def
        default_engineconf_def logger_info_def Let_def)
qed

subsection \<open>The run loop and the methods\<close>

lemma py_lower_char_y: "py_lower_char c = CHR ''y'' \<longleftrightarrow> c = CHR ''y'' \<or> c = CHR ''Y''"
  by (cases c) (auto simp: Let_def)

lemma mainloop_once_answer:
  assumes "self_enable_logger e \<longrightarrow> self_logger e \<noteq> None"
  shows "fst (mainloop_once e (Answer r) w)
           = (if confirms r then SystemExit ''Engine exiting'' else Returned)"
  using assms
  by (cases r)
     (auto simp: mainloop_once_def mainloop_enter_def confirms_def py_lower_def
       py_lower_char_y Let_def split: prod.splits sum.splits option.splits)

lemma Engine_init_logger_invariant:
  assumes "Engine_init w gameconf v = (Inr e, w')"
  shows "self_enable_logger e \<longrightarrow> self_logger e \<noteq> None"
    and "\<not> self_enable_logger e \<longrightarrow> self_logger e = None"
    and "v = PyBool (self_enable_logger e)"
proof -
  from assms obtain b where v: "v = PyBool b"
    by (cases v) (auto simp: Engine_init_def)
  let ?e0 = "\<lparr>self_enable_logger = b, self_init = False, self_engineconf = engineconf_unset,
              self_gameconf = gameconf, self_logger = None\<rparr>"
  from assms v obtain e1 w1 where bs: "bootstrap ?e0 w = (Inr e1, w1)"
    by (auto simp: Engine_init_def Let_def split: prod.splits sum.splits)
  from bootstrap_keeps [OF bs] have k: "self_enable_logger e1 = b" by simp
  show "self_enable_logger e \<longrightarrow> self_logger e \<noteq> None"
    using assms v bs k
    by (auto simp: Engine_init_def Let_def split: prod.splits sum.splits option.splits if_splits)
  show "\<not> self_enable_logger e \<longrightarrow> self_logger e = None"
    using assms v bs k
    by (auto simp: Engine_init_def Let_def dest: set_logger_result
        split: prod.splits sum.splits option.splits if_splits)
  show "v = PyBool (self_enable_logger e)"
    using assms v bs k
    by (auto simp: Engine_init_def Let_def dest: set_logger_result
        split: prod.splits sum.splits option.splits if_splits)
qed

lemma call_method_keeps_logger:
  "c \<noteq> CallSetLogger \<Longrightarrow> fst (call_method c (e, w)) = e"
  by (cases c) simp_all

lemma call_methods_keep_logger:
  "CallSetLogger \<notin> set cs \<Longrightarrow> fst (call_methods cs (e, w)) = e"
proof (induction cs arbitrary: w)
  case Nil
  then show ?case by simp
next
  case (Cons c cs)
  then have c: "c \<noteq> CallSetLogger" and cs: "CallSetLogger \<notin> set cs" by auto
  obtain w1 where "call_method c (e, w) = (e, w1)"
    using call_method_keeps_logger [OF c, of e w] by (cases "call_method c (e, w)") simp
  with Cons.IH [OF cs] show ?case by simp
qed

subsection \<open>Constructing again after the file was seeded\<close>

lemma default_text_conf_text:
  "default_text = conf_text ''engine'' ''./logs'' ''disable'' ''disable'' ''disable'' ''disable''"
  by (simp add: default_text_def conf_text_def spec_default_table_def conf_table_def)

lemma Engine_init_refused: "refused (snd (Engine_init w g v)) = refused w"
proof -
  have s: "refused (snd (set_logger e w1)) = refused w1" for e w1
    by (auto simp: set_logger_def create_dir_def setup_logger_def emit_def Let_def
        split: option.splits prod.splits sum.splits)
  have b: "refused (snd (bootstrap e w)) = refused w" for e
    by (rule bootstrap_refused)
  show ?thesis
  proof (cases "isinstance_bool v \<and> \<not> is_None v")
    case False
    then show ?thesis by (auto simp: Engine_init_def)
  next
    case True
    let ?e0 = "\<lparr>self_enable_logger = truth v, self_init = False,
                self_engineconf = engineconf_unset, self_gameconf = g, self_logger = None\<rparr>"
    obtain r1 w1 where bs: "bootstrap ?e0 w = (r1, w1)" by (cases "bootstrap ?e0 w")
    with b [of ?e0] have r1: "refused w1 = refused w" by simp
    show ?thesis
    proof (cases r1)
      case (Inl err)
      with True bs r1 show ?thesis by (simp add: Engine_init_def Let_def)
    next
      case (Inr e1)
      obtain r2 w2 where sl: "set_logger (e1\<lparr>self_logger := None\<rparr>) w1 = (r2, w2)"
        by (cases "set_logger (e1\<lparr>self_logger := None\<rparr>) w1")
      with s [of "e1\<lparr>self_logger := None\<rparr>" w1] r1 have r2: "refused w2 = refused w" by simp
      from True bs Inr sl r1 r2 show ?thesis
        by (auto simp: Engine_init_def Let_def logger_info_def emit_def
            split: sum.splits option.splits)
    qed
  qed
qed

lemma construct_again_after_seeding:
  assumes f: "files w P = None \<or> files w P = Some []"
    and r: "\<not> refused w (py_slice_to P (py_rfind P sep))" "\<not> refused w P"
      "\<not> refused w ''./logs''"
  shows "\<exists>e w'. Engine_init (snd (Engine_init w (Some P) (PyBool b))) (Some P) (PyBool True)
                  = (Inr e, w')
           \<and> self_engineconf e = default_engineconf"
proof -
  let ?w1 = "snd (Engine_init w (Some P) (PyBool b))"
  let ?e0 = "\<lparr>self_enable_logger = b, self_init = False, self_engineconf = engineconf_unset,
              self_gameconf = Some P, self_logger = None\<rparr>"
  have "self_gameconf ?e0 = Some P" by simp
  from bootstrap_seeds [OF this f r(1,2)]
  have "files ?w1 P = Some default_text" by (simp add: Engine_init_after_bootstrap)
  then have f1: "files ?w1 P
      = Some (conf_text ''engine'' ''./logs'' ''disable'' ''disable'' ''disable'' ''disable'')"
    by (simp add: default_text_conf_text)
  have r1: "\<not> refused ?w1 (py_slice_to P (py_rfind P sep))" "\<not> refused ?w1 P"
    "\<not> refused ?w1 ''./logs''"
    using r by (simp_all add: Engine_init_refused)
  have "\<exists>w'. Engine_init ?w1 (Some P) (PyBool True) =
           (Inr \<lparr>self_enable_logger = True, self_init = False,
                 self_engineconf = conf_engineconf ''engine'' ''./logs'' ''disable'' ''disable'',
                 self_gameconf = Some P,
                 self_logger = Some \<lparr>lg_fpath = ''./logs'',
                                      lg_fname = ''engine'' @ ''_'' @ today ?w1 @ ''.log'',
                                      lg_level = DEBUG, lg_stdio = (''disable'' = ''enable''),
                                      lg_fileio = (''disable'' = ''enable'')\<rparr>\<rparr>, w')
         \<and> files w' = files ?w1"
    by (rule Engine_init_reads_conf [OF _ _ _ _ _ _ _ _ _ _ f1 r1])
       (simp_all add: plain_value_def py_isspace_def nl_def cr_def)
  then show ?thesis
    by (auto simp: conf_engineconf_def default_engineconf_def)
qed

subsection \<open>Constructing on an arbitrary populated file\<close>

lemma Engine_init_reads:
  assumes f: "files w P = Some c" and ne: "c \<noteq> []"
    and rd: "read_string ConfigParser c = Inr cp"
    and g: "getitem cp LOGGER_SECTION LOGFILE_OPTION = Inr lf"
      "getitem cp LOGGER_SECTION LOGDIR_OPTION = Inr ld"
      "getitem cp LOGGER_SECTION LOGTOFILE_OPTION = Inr ltf"
      "getitem cp LOGGER_SECTION LOGTOSTDIO_OPTION = Inr lts"
    and r: "\<not> refused w (py_slice_to P (py_rfind P sep))" "\<not> refused w P" "\<not> refused w ld"
  shows "\<exists>w'. Engine_init w (Some P) (PyBool True) =
           (Inr \<lparr>self_enable_logger = True, self_init = False,
                 self_engineconf = conf_engineconf lf ld ltf lts,
                 self_gameconf = Some P,
                 self_logger = Some \<lparr>lg_fpath = ld, lg_fname = lf @ ''_'' @ today w @ ''.log'',
                                      lg_level = DEBUG, lg_stdio = (lts = ''enable''),
                                      lg_fileio = (ltf = ''enable'')\<rparr>\<rparr>, w')
         \<and> files w' = files w"
proof -
  let ?e0 = "\<lparr>self_enable_logger = True, self_init = False, self_engineconf = engineconf_unset,
              self_gameconf = Some P, self_logger = None\<rparr>"
  let ?d = "py_slice_to P (py_rfind P sep)"
  let ?w3 = "emit (EvStat P) (emit (EvCreateFile P)
               ((emit (EvCreateDir (Some ?d)) w)\<lparr>dirs := insert ?d (dirs w)\<rparr>))"
  have f3: "files ?w3 P = Some c" using f by (simp add: emit_def)
  have "bootstrap ?e0 w = parse_config ?e0 ?w3"
    using f r ne
    by (auto simp: bootstrap_def create_dir_def create_file_def stat_size_def emit_def Let_def
        intro!: arg_cong [where f = "parse_config ?e0"] world.equality)
  also have "\<dots> = (Inr (?e0\<lparr>self_engineconf := conf_engineconf lf ld ltf lts\<rparr>),
                     emit (EvRead P) ?w3)"
    using f3 rd g
    by (simp add: parse_config_def cparser_read_def get_conf_parser_def conf_engineconf_def
        ENABLE_def Let_def)
  finally have b: "bootstrap ?e0 w =
      (Inr (?e0\<lparr>self_engineconf := conf_engineconf lf ld ltf lts\<rparr>), emit (EvRead P) ?w3)" .
  show ?thesis
    using r(3)
    by (simp add: Engine_init_def b set_logger_def create_dir_def setup_logger_def emit_def
        conf_engineconf_def logger_info_def Let_def)
qed

lemma Engine_init_read_inversion:
  assumes i: "Engine_init w (Some P) (PyBool True) = (Inr e, w')"
    and f: "files w P = Some c" and ne: "c \<noteq> []"
  shows "\<exists>cp lf ld ltf lts.
           read_string ConfigParser c = Inr cp
           \<and> getitem cp LOGGER_SECTION LOGFILE_OPTION = Inr lf
           \<and> getitem cp LOGGER_SECTION LOGDIR_OPTION = Inr ld
           \<and> getitem cp LOGGER_SECTION LOGTOFILE_OPTION = Inr ltf
           \<and> getitem cp LOGGER_SECTION LOGTOSTDIO_OPTION = Inr lts
           \<and> self_engineconf e = conf_engineconf lf ld ltf lts"
proof -
  let ?e0 = "\<lparr>self_enable_logger = True, self_init = False, self_engineconf = engineconf_unset,
              self_gameconf = Some P, self_logger = None\<rparr>"
  from i obtain e1 w1 where b: "bootstrap ?e0 w = (Inr e1, w1)"
    by (auto simp: Engine_init_def Let_def split: prod.splits sum.splits)
  from bootstrap_keeps [OF b] have k: "self_enable_logger e1" by simp
  from i b k obtain w2 where s: "set_logger (e1\<lparr>self_logger := None\<rparr>) w1 = (Inr e, w2)"
    by (auto simp: Engine_init_def Let_def split: prod.splits sum.splits option.splits)
  from set_logger_result [OF s] have c: "self_engineconf e = self_engineconf e1" by simp
  from b f ne have "\<exists>cp lf ld ltf lts.
           read_string ConfigParser c = Inr cp
           \<and> getitem cp LOGGER_SECTION LOGFILE_OPTION = Inr lf
           \<and> getitem cp LOGGER_SECTION LOGDIR_OPTION = Inr ld
           \<and> getitem cp LOGGER_SECTION LOGTOFILE_OPTION = Inr ltf
           \<and> getitem cp LOGGER_SECTION LOGTOSTDIO_OPTION = Inr lts
           \<and> self_engineconf e1 = conf_engineconf lf ld ltf lts"
    by (auto simp: bootstrap_def create_dir_def create_file_def stat_size_def parse_config_def
        cparser_read_def get_conf_parser_def emit_def conf_engineconf_def ENABLE_def Let_def
        split: prod.splits sum.splits if_splits)
  with c show ?thesis by simp
qed

lemma interpolate_escaped: "interpolate_some 10 m ''a%%b'' = Inr ''a%b''"
  by (simp add: interpolate_some.simps [of _ _ "''a%%b''"] interpolate_some.simps [of _ _ "''b''"])

lemma Engine_init_keeps_populated_file:
  assumes i: "Engine_init w (Some P) (PyBool b) = (r, w')"
    and f: "files w P = Some c" and ne: "c \<noteq> []"
  shows "files w' = files w"
proof -
  let ?e0 = "\<lparr>self_enable_logger = b, self_init = False, self_engineconf = engineconf_unset,
              self_gameconf = Some P, self_logger = None\<rparr>"
  have bf: "files (snd (bootstrap ?e0 w)) = files w"
    using f ne parse_config_frame [of ?e0 P]
    by (auto simp: bootstrap_def create_dir_def create_file_def stat_size_def emit_def Let_def
        split: prod.splits sum.splits)
  obtain r1 w1 where b: "bootstrap ?e0 w = (r1, w1)" by (cases "bootstrap ?e0 w")
  show ?thesis
  proof (cases r1)
    case (Inl err)
    with i b bf show ?thesis by (simp add: Engine_init_def Let_def)
  next
    case (Inr e1)
    with b have "files (snd (Engine_init w (Some P) (PyBool b))) = files w1"
      by (simp add: Engine_init_after_bootstrap)
    with i b bf show ?thesis by simp
  qed
qed

lemma getitem_escaped_conf_table:
  "getitem \<lparr>cp_defaults = [],
            cp_sections = conf_table ''a%%b'' ''./logs'' ''disable'' ''disable'' ''disable''
                            ''disable''\<rparr> LOGGER_SECTION LOGFILE_OPTION = Inr ''a%b''"
  by (simp add: getitem_def has_option_def cparser_get_def unify_values_def conf_table_def
      dict_has_def default_section_def py_lower_def interpolate_escaped LOGGER_SECTION_def
      LOGFILE_OPTION_def)

lemma getitem_unescaped_conf_table:
  assumes "CHR ''%'' \<notin> set ld" "CHR ''%'' \<notin> set ltf" "CHR ''%'' \<notin> set lts"
  shows "getitem \<lparr>cp_defaults = [], cp_sections = conf_table lf ld ltf lts ed eed\<rparr>
           LOGGER_SECTION LOGDIR_OPTION = Inr ld"
    and "getitem \<lparr>cp_defaults = [], cp_sections = conf_table lf ld ltf lts ed eed\<rparr>
           LOGGER_SECTION LOGTOFILE_OPTION = Inr ltf"
    and "getitem \<lparr>cp_defaults = [], cp_sections = conf_table lf ld ltf lts ed eed\<rparr>
           LOGGER_SECTION LOGTOSTDIO_OPTION = Inr lts"
  using assms
  by (simp_all add: getitem_def has_option_def cparser_get_def unify_values_def conf_table_def
      dict_has_def default_section_def py_lower_def interpolate_plain LOGGER_SECTION_def
      LOGDIR_OPTION_def LOGTOFILE_OPTION_def LOGTOSTDIO_OPTION_def)

lemma read_padded_conf_text:
  "read_string ConfigParser
     (conf_text (''run'' @ '' '') ''./logs'' ''disable'' ''disable'' ''disable'' ''disable'')
   = Inr \<lparr>cp_defaults = [],
          cp_sections = conf_table ''run'' ''./logs'' ''disable'' ''disable'' ''disable''
                          ''disable''\<rparr>"
  by (simp add: conf_text_def conf_table_def cparser_write_def write_section_def
      py_replace_char_def read_string_def ConfigParser_def unjoin_items_def join_items_def
      nl_def cr_def read_line_def py_strip_def py_lstrip_def py_rstrip_def py_isspace_def
      match_section_def match_option_def is_delim_def optname_set_def cursect_update_def
      value_append_def dict_has_def default_section_def py_lower_def join_value_def Let_def)

section \<open>Validation of the logger flag\<close>

text \<open>The second test of the validation can only be reached by a boolean, and a boolean is
  not \<open>None\<close>: the branch that raises the Enable-Logger-Value error is never taken.\<close>

lemma value_branch_unreachable: "\<not> (isinstance_bool v \<and> is_None v)"
  by (cases v) simp_all

text \<open>
  C1.  The claim says that \<open>enable_logger=None\<close> raises the Enable-Logger-Value error.
  \<open>None\<close> is not an instance of \<open>bool\<close>, so the type check, which comes first, raises the
  Enable-Logger-Type error for it: in every world and for every configuration path the
  constructor called with \<open>None\<close> ends in \<open>EnableLoggerTypeError\<close>.
\<close>

theorem C1_none_raises_type_error:
  "Engine_init w gameconf PyNone = (Inl EnableLoggerTypeError, w)"
  by (simp add: Engine_init_def)

text \<open>
  C2.  For every argument that is not a boolean the constructor raises the
  Enable-Logger-Type error and the world is the one it started from: no directory and no
  file was created, and the trace of operations has no new entry, so nothing was probed or
  read either.
\<close>

theorem C2_non_bool_type_error_no_io:
  assumes "\<not> isinstance_bool v"
  shows "Engine_init w gameconf v = (Inl EnableLoggerTypeError, w)"
  using assms by (simp add: Engine_init_def)

theorem C2_non_bool_witness:
  "\<not> isinstance_bool (PyStr ''yes'')
   \<and> Engine_init \<lparr>files = Map.empty, dirs = {}, refused = (\<lambda>p. False), today = ''2020-05-12'',
                    io_log = []\<rparr> (Some ''config/game.ini'') (PyStr ''yes'')
     = (Inl EnableLoggerTypeError,
        \<lparr>files = Map.empty, dirs = {}, refused = (\<lambda>p. False), today = ''2020-05-12'',
         io_log = []\<rparr>)"
  using C2_non_bool_type_error_no_io [of "PyStr ''yes''"] by simp


section \<open>Seeding the configuration file\<close>

text \<open>
  C3.  Let the configuration file be absent or empty at the path \<open>P\<close>, and let the file
  system not refuse to create the directory part of \<open>P\<close> and the file itself.  After the
  constructor has run with \<open>gameconf=P\<close> and either value of the logger flag, the file at
  \<open>P\<close> exists, its content is the text the parser writes for the table of section 6, this
  text is not empty, and reading it back gives exactly the two sections \<open>logger\<close> and
  \<open>engine\<close> with the documented keys and values.
\<close>

theorem C3_absent_or_empty_file_is_seeded:
  assumes "files w P = None \<or> files w P = Some []"
    and "\<not> refused w (py_slice_to P (py_rfind P sep))"
    and "\<not> refused w P"
  shows "files (snd (Engine_init w (Some P) (PyBool b))) P = Some default_text
         \<and> default_text \<noteq> []
         \<and> read_string ConfigParser default_text
             = Inr \<lparr>cp_defaults = [], cp_sections = spec_default_table\<rparr>"
proof -
  let ?e0 = "\<lparr>self_enable_logger = b, self_init = False, self_engineconf = engineconf_unset,
              self_gameconf = Some P, self_logger = None\<rparr>"
  have "self_gameconf ?e0 = Some P" by simp
  from bootstrap_seeds [OF this assms]
  have "files (snd (Engine_init w (Some P) (PyBool b))) P = Some default_text"
    by (simp add: Engine_init_after_bootstrap)
  then show ?thesis by (simp add: default_text_nonempty read_default_text)
qed


theorem C3_seeded_witness:
  "(files \<lparr>files = Map.empty, dirs = {}, refused = (\<lambda>p. False), today = ''2020-05-12'',
            io_log = []\<rparr> ''config/game.ini'' = None)
   \<and> files (snd (Engine_init \<lparr>files = Map.empty, dirs = {}, refused = (\<lambda>p. False),
                               today = ''2020-05-12'', io_log = []\<rparr>
                    (Some ''config/game.ini'') (PyBool True))) ''config/game.ini''
       = Some default_text
   \<and> default_text \<noteq> []"
  using C3_absent_or_empty_file_is_seeded
    [of "\<lparr>files = Map.empty, dirs = {}, refused = (\<lambda>p. False), today = ''2020-05-12'',
          io_log = []\<rparr>" "''config/game.ini''" True]
  by simp


section \<open>Bootstrap on a populated file\<close>

text \<open>
  C4.  When the configuration file at the engine's path is not empty, the bootstrap step
  leaves every file as it is, so the content of the configuration file is preserved byte for
  byte, and none of the operations it requests is a write: the defaults are not seeded
  again.  (\<open>bootstrap_twice\<close> adds that a second pass after any first pass changes neither
  the files nor the directories.)
\<close>

theorem C4_populated_file_is_never_reseeded:
  assumes "self_gameconf e = Some P" and "files w P = Some c" and "c \<noteq> []"
  shows "files (snd (bootstrap e w)) = files w
         \<and> files (snd (bootstrap e w)) P = Some c
         \<and> (\<forall>p. EvWrite p \<notin> set (io_since w (snd (bootstrap e w))))"
  using assms parse_config_frame [of e P]
  by (auto simp: bootstrap_def create_dir_def create_file_def stat_size_def emit_def Let_def
      io_since_def split: prod.splits sum.splits)



theorem C4_populated_witness:
  "files \<lparr>files = [''config/game.ini'' \<mapsto> default_text], dirs = {''config''},
          refused = (\<lambda>p. False), today = ''2020-05-12'', io_log = []\<rparr> ''config/game.ini''
     = Some default_text
   \<and> default_text \<noteq> []
   \<and> files (snd (bootstrap
        \<lparr>self_enable_logger = True, self_init = False, self_engineconf = engineconf_unset,
         self_gameconf = Some ''config/game.ini'', self_logger = None\<rparr>
        \<lparr>files = [''config/game.ini'' \<mapsto> default_text], dirs = {''config''},
         refused = (\<lambda>p. False), today = ''2020-05-12'', io_log = []\<rparr>)) ''config/game.ini''
     = Some default_text"
  using C4_populated_file_is_never_reseeded
    [of "\<lparr>self_enable_logger = True, self_init = False, self_engineconf = engineconf_unset,
          self_gameconf = Some ''config/game.ini'', self_logger = None\<rparr>"
        "''config/game.ini''"
        "\<lparr>files = [''config/game.ini'' \<mapsto> default_text], dirs = {''config''},
          refused = (\<lambda>p. False), today = ''2020-05-12'', io_log = []\<rparr>"
        default_text]
  by (simp add: default_text_nonempty)


section \<open>Reading a written configuration back\<close>

text \<open>
  C5.  The statement that the fields exactly match what was last written, for every written
  file, does not hold.  The parser accepts the value \<open>a%%b\<close> for \<open>log_file\<close> and writes it as
  it is; the engine constructed on that file has the base name \<open>a%b\<close>, because the parser
  interpolates a value when it is looked up.  A written base name \<open>run\<close> followed by a space
  comes back as \<open>run\<close>, because the parser strips the value of an option line.
\<close>

theorem C5_stored_text_counterexample:
  "fst (Engine_init
      \<lparr>files = [''config/game.ini'' \<mapsto>
                  conf_text ''a%%b'' ''./logs'' ''disable'' ''disable'' ''disable'' ''disable''],
       dirs = {''config''}, refused = (\<lambda>p. False), today = ''2020-05-12'', io_log = []\<rparr>
      (Some ''config/game.ini'') (PyBool True))
     = Inr \<lparr>self_enable_logger = True, self_init = False,
            self_engineconf =
              \<lparr>log_fpath = Some ''./logs'', log_fname = Some ''a%b'', log_level = Some DEBUG,
               log_stdio = Some False, log_fileio = Some False\<rparr>,
            self_gameconf = Some ''config/game.ini'',
            self_logger = Some \<lparr>lg_fpath = ''./logs'', lg_fname = ''a%b_2020-05-12.log'',
                                 lg_level = DEBUG, lg_stdio = False, lg_fileio = False\<rparr>\<rparr>
   \<and> before_set ''a%%b'' = Inr ''a%%b''
   \<and> fst (Engine_init
      \<lparr>files = [''config/game.ini'' \<mapsto>
                  conf_text (''run'' @ '' '') ''./logs'' ''disable'' ''disable'' ''disable''
                    ''disable''],
       dirs = {''config''}, refused = (\<lambda>p. False), today = ''2020-05-12'', io_log = []\<rparr>
      (Some ''config/game.ini'') (PyBool True))
     = Inr \<lparr>self_enable_logger = True, self_init = False,
            self_engineconf =
              \<lparr>log_fpath = Some ''./logs'', log_fname = Some ''run'', log_level = Some DEBUG,
               log_stdio = Some False, log_fileio = Some False\<rparr>,
            self_gameconf = Some ''config/game.ini'',
            self_logger = Some \<lparr>lg_fpath = ''./logs'', lg_fname = ''run_2020-05-12.log'',
                                 lg_level = DEBUG, lg_stdio = False, lg_fileio = False\<rparr>\<rparr>"
proof -
  let ?P = "''config/game.ini''"
  let ?t1 = "conf_text ''a%%b'' ''./logs'' ''disable'' ''disable'' ''disable'' ''disable''"
  let ?t2 = "conf_text (''run'' @ '' '') ''./logs'' ''disable'' ''disable'' ''disable'' ''disable''"
  let ?w1 = "\<lparr>files = [?P \<mapsto> ?t1], dirs = {''config''}, refused = (\<lambda>p. False),
              today = ''2020-05-12'', io_log = []\<rparr>"
  let ?w2 = "\<lparr>files = [?P \<mapsto> ?t2], dirs = {''config''}, refused = (\<lambda>p. False),
              today = ''2020-05-12'', io_log = []\<rparr>"
  have pl: "plain_value ''a%%b''" "plain_value ''./logs''" "plain_value ''disable''"
    by (simp_all add: plain_value_def py_isspace_def nl_def cr_def)
  have np: "CHR ''%'' \<notin> set ''./logs''" "CHR ''%'' \<notin> set ''disable''" "CHR ''%'' \<notin> set ''run''"
    by simp_all
  have rd1: "read_string ConfigParser ?t1 = Inr \<lparr>cp_defaults = [],
      cp_sections = conf_table ''a%%b'' ''./logs'' ''disable'' ''disable'' ''disable'' ''disable''\<rparr>"
    by (rule read_conf_text) (rule pl)+
  have ne1: "?t1 \<noteq> []"
    by (rule conf_text_nonempty) (rule pl)+
  have ne2: "?t2 \<noteq> []"
    by (simp add: conf_text_def conf_table_def cparser_write_def write_section_def)
  have "\<exists>w'. Engine_init ?w1 (Some ?P) (PyBool True) =
           (Inr \<lparr>self_enable_logger = True, self_init = False,
                 self_engineconf = conf_engineconf ''a%b'' ''./logs'' ''disable'' ''disable'',
                 self_gameconf = Some ?P,
                 self_logger = Some \<lparr>lg_fpath = ''./logs'',
                                      lg_fname = ''a%b'' @ ''_'' @ today ?w1 @ ''.log'',
                                      lg_level = DEBUG, lg_stdio = (''disable'' = ''enable''),
                                      lg_fileio = (''disable'' = ''enable'')\<rparr>\<rparr>, w')
         \<and> files w' = files ?w1"
    by (rule Engine_init_reads [OF _ ne1 rd1 getitem_escaped_conf_table
          getitem_unescaped_conf_table [OF np(1) np(2) np(2)]])
       simp_all
  then have a: "fst (Engine_init ?w1 (Some ?P) (PyBool True))
     = Inr \<lparr>self_enable_logger = True, self_init = False,
            self_engineconf =
              \<lparr>log_fpath = Some ''./logs'', log_fname = Some ''a%b'', log_level = Some DEBUG,
               log_stdio = Some False, log_fileio = Some False\<rparr>,
            self_gameconf = Some ?P,
            self_logger = Some \<lparr>lg_fpath = ''./logs'', lg_fname = ''a%b_2020-05-12.log'',
                                 lg_level = DEBUG, lg_stdio = False, lg_fileio = False\<rparr>\<rparr>"
    by (auto simp: conf_engineconf_def)
  have b: "before_set ''a%%b'' = Inr ''a%%b''"
    using set_remove_keys [of "''ab''"] by (auto simp: before_set_def)
  have "\<exists>w'. Engine_init ?w2 (Some ?P) (PyBool True) =
           (Inr \<lparr>self_enable_logger = True, self_init = False,
                 self_engineconf = conf_engineconf ''run'' ''./logs'' ''disable'' ''disable'',
                 self_gameconf = Some ?P,
                 self_logger = Some \<lparr>lg_fpath = ''./logs'',
                                      lg_fname = ''run'' @ ''_'' @ today ?w2 @ ''.log'',
                                      lg_level = DEBUG, lg_stdio = (''disable'' = ''enable''),
                                      lg_fileio = (''disable'' = ''enable'')\<rparr>\<rparr>, w')
         \<and> files w' = files ?w2"
    by (rule Engine_init_reads [OF _ ne2 read_padded_conf_text
          getitem_conf_table [OF np(3) np(1) np(2) np(2)]])
       simp_all
  then have c: "fst (Engine_init ?w2 (Some ?P) (PyBool True))
     = Inr \<lparr>self_enable_logger = True, self_init = False,
            self_engineconf =
              \<lparr>log_fpath = Some ''./logs'', log_fname = Some ''run'', log_level = Some DEBUG,
               log_stdio = Some False, log_fileio = Some False\<rparr>,
            self_gameconf = Some ?P,
            self_logger = Some \<lparr>lg_fpath = ''./logs'', lg_fname = ''run_2020-05-12.log'',
                                 lg_level = DEBUG, lg_stdio = False, lg_fileio = False\<rparr>\<rparr>"
    by (auto simp: conf_engineconf_def)
  from a b c show ?thesis by (simp only: simp_thms)
qed

text \<open>
  C5, as amended.  Whenever the engine is constructed with the logger enabled on a
  configuration file that is not empty and the construction returns an engine, the parser
  has read the file, and the engine's directory, base name and two sinks are the values the
  parser returns for \<open>log_dir\<close>, \<open>log_file\<close>, \<open>log_to_stdio\<close> and \<open>log_to_file\<close> of the section
  \<open>logger\<close> (a sink is true exactly for the literal \<open>enable\<close>), the level is \<open>DEBUG\<close> whatever
  the file stores, and the file is left as it was.  When the file has the layout the engine
  writes and its values fit on a line, have no white space at either end and, for the four
  values the engine reads, no interpolation character, the construction does return an
  engine (the file system not refusing the directories involved) and these fields are
  exactly the written values.  The file that a first construction seeded is of this kind
  (\<open>construct_again_after_seeding\<close>).
\<close>

theorem C5_reconstruction_reads_the_file:
  "(Engine_init w (Some P) (PyBool True) = (Inr e1, w1) \<and> files w P = Some c \<and> c \<noteq> []
      \<longrightarrow> (\<exists>cp lf ld ltf lts.
             read_string ConfigParser c = Inr cp
             \<and> getitem cp LOGGER_SECTION LOGFILE_OPTION = Inr lf
             \<and> getitem cp LOGGER_SECTION LOGDIR_OPTION = Inr ld
             \<and> getitem cp LOGGER_SECTION LOGTOFILE_OPTION = Inr ltf
             \<and> getitem cp LOGGER_SECTION LOGTOSTDIO_OPTION = Inr lts
             \<and> self_engineconf e1 =
                 \<lparr>log_fpath = Some ld, log_fname = Some lf, log_level = Some DEBUG,
                  log_stdio = Some (lts = ''enable''), log_fileio = Some (ltf = ''enable'')\<rparr>
             \<and> files w1 P = Some c))
   \<and> (plain_value vfile \<and> plain_value vdir \<and> plain_value vtofile \<and> plain_value vtostdio
        \<and> plain_value vdebug \<and> plain_value vedebug
        \<and> CHR ''%'' \<notin> set vfile \<and> CHR ''%'' \<notin> set vdir \<and> CHR ''%'' \<notin> set vtofile
        \<and> CHR ''%'' \<notin> set vtostdio
        \<and> files w P = Some (conf_text vfile vdir vtofile vtostdio vdebug vedebug)
        \<and> \<not> refused w (py_slice_to P (py_rfind P sep)) \<and> \<not> refused w P \<and> \<not> refused w vdir
      \<longrightarrow> (\<exists>e w'. Engine_init w (Some P) (PyBool True) = (Inr e, w')
             \<and> self_engineconf e =
                 \<lparr>log_fpath = Some vdir, log_fname = Some vfile, log_level = Some DEBUG,
                  log_stdio = Some (vtostdio = ''enable''), log_fileio = Some (vtofile = ''enable'')\<rparr>
             \<and> files w' P = Some (conf_text vfile vdir vtofile vtostdio vdebug vedebug)))"
proof (intro conjI impI)
  assume a: "Engine_init w (Some P) (PyBool True) = (Inr e1, w1) \<and> files w P = Some c \<and> c \<noteq> []"
  then have i: "Engine_init w (Some P) (PyBool True) = (Inr e1, w1)"
    and f: "files w P = Some c" and ne: "c \<noteq> []"
    by simp_all
  from Engine_init_keeps_populated_file [OF i f ne] f have "files w1 P = Some c" by simp
  with Engine_init_read_inversion [OF i f ne]
  show "\<exists>cp lf ld ltf lts.
             read_string ConfigParser c = Inr cp
             \<and> getitem cp LOGGER_SECTION LOGFILE_OPTION = Inr lf
             \<and> getitem cp LOGGER_SECTION LOGDIR_OPTION = Inr ld
             \<and> getitem cp LOGGER_SECTION LOGTOFILE_OPTION = Inr ltf
             \<and> getitem cp LOGGER_SECTION LOGTOSTDIO_OPTION = Inr lts
             \<and> self_engineconf e1 =
                 \<lparr>log_fpath = Some ld, log_fname = Some lf, log_level = Some DEBUG,
                  log_stdio = Some (lts = ''enable''), log_fileio = Some (ltf = ''enable'')\<rparr>
             \<and> files w1 P = Some c"
    by (simp add: conf_engineconf_def)
next
  assume a: "plain_value vfile \<and> plain_value vdir \<and> plain_value vtofile \<and> plain_value vtostdio
        \<and> plain_value vdebug \<and> plain_value vedebug
        \<and> CHR ''%'' \<notin> set vfile \<and> CHR ''%'' \<notin> set vdir \<and> CHR ''%'' \<notin> set vtofile
        \<and> CHR ''%'' \<notin> set vtostdio
        \<and> files w P = Some (conf_text vfile vdir vtofile vtostdio vdebug vedebug)
        \<and> \<not> refused w (py_slice_to P (py_rfind P sep)) \<and> \<not> refused w P \<and> \<not> refused w vdir"
  then have p: "plain_value vfile" "plain_value vdir" "plain_value vtofile" "plain_value vtostdio"
      "plain_value vdebug" "plain_value vedebug"
    and n: "CHR ''%'' \<notin> set vfile" "CHR ''%'' \<notin> set vdir" "CHR ''%'' \<notin> set vtofile"
      "CHR ''%'' \<notin> set vtostdio"
    and f: "files w P = Some (conf_text vfile vdir vtofile vtostdio vdebug vedebug)"
    and r: "\<not> refused w (py_slice_to P (py_rfind P sep))" "\<not> refused w P" "\<not> refused w vdir"
    by simp_all
  from Engine_init_reads_conf [OF p n f r]
  obtain w' where
    "Engine_init w (Some P) (PyBool True) =
       (Inr \<lparr>self_enable_logger = True, self_init = False,
             self_engineconf = conf_engineconf vfile vdir vtofile vtostdio, self_gameconf = Some P,
             self_logger = Some \<lparr>lg_fpath = vdir, lg_fname = vfile @ ''_'' @ today w @ ''.log'',
                                  lg_level = DEBUG, lg_stdio = (vtostdio = ''enable''),
                                  lg_fileio = (vtofile = ''enable'')\<rparr>\<rparr>, w')"
    and "files w' = files w"
    by blast
  with f show "\<exists>e w'. Engine_init w (Some P) (PyBool True) = (Inr e, w')
             \<and> self_engineconf e =
                 \<lparr>log_fpath = Some vdir, log_fname = Some vfile, log_level = Some DEBUG,
                  log_stdio = Some (vtostdio = ''enable''), log_fileio = Some (vtofile = ''enable'')\<rparr>
             \<and> files w' P = Some (conf_text vfile vdir vtofile vtostdio vdebug vedebug)"
    by (simp add: conf_engineconf_def)
qed

theorem C5_reconstruction_witness:
  "\<exists>e w'. Engine_init
      \<lparr>files = [''config/game.ini'' \<mapsto>
                  conf_text ''engine'' ''./logs'' ''enable'' ''disable'' ''disable'' ''disable''],
       dirs = {''config''}, refused = (\<lambda>p. False), today = ''2020-05-12'', io_log = []\<rparr>
      (Some ''config/game.ini'') (PyBool True) = (Inr e, w')
     \<and> self_engineconf e =
         \<lparr>log_fpath = Some ''./logs'', log_fname = Some ''engine'', log_level = Some DEBUG,
          log_stdio = Some False, log_fileio = Some True\<rparr>
     \<and> files w' ''config/game.ini''
         = Some (conf_text ''engine'' ''./logs'' ''enable'' ''disable'' ''disable'' ''disable'')
     \<and> (\<exists>cp. read_string ConfigParser
                (conf_text ''engine'' ''./logs'' ''enable'' ''disable'' ''disable'' ''disable'')
              = Inr cp
            \<and> getitem cp LOGGER_SECTION LOGFILE_OPTION = Inr ''engine''
            \<and> getitem cp LOGGER_SECTION LOGTOFILE_OPTION = Inr ''enable'')"
proof -
  let ?P = "''config/game.ini''"
  let ?t = "conf_text ''engine'' ''./logs'' ''enable'' ''disable'' ''disable'' ''disable''"
  let ?w = "\<lparr>files = [?P \<mapsto> ?t], dirs = {''config''}, refused = (\<lambda>p. False),
             today = ''2020-05-12'', io_log = []\<rparr>"
  have pl: "plain_value ''engine''" "plain_value ''./logs''" "plain_value ''enable''"
    "plain_value ''disable''"
    by (simp_all add: plain_value_def py_isspace_def nl_def cr_def)
  have ne: "?t \<noteq> []"
    by (rule conf_text_nonempty) (rule pl)+
  note t = C5_reconstruction_reads_the_file [where w = ?w and P = ?P and c = ?t
      and vfile = "''engine''" and vdir = "''./logs''" and vtofile = "''enable''" and vtostdio = "''disable''"
      and vdebug = "''disable''" and vedebug = "''disable''"]
  from t [THEN conjunct2] pl
  have "\<exists>e w'. Engine_init ?w (Some ?P) (PyBool True) = (Inr e, w')
       \<and> self_engineconf e =
           \<lparr>log_fpath = Some ''./logs'', log_fname = Some ''engine'', log_level = Some DEBUG,
            log_stdio = Some (''disable'' = ''enable''), log_fileio = Some (''enable'' = ''enable'')\<rparr>
       \<and> files w' ?P = Some ?t"
    by simp
  then obtain e w' where i: "Engine_init ?w (Some ?P) (PyBool True) = (Inr e, w')"
    and c: "self_engineconf e =
           \<lparr>log_fpath = Some ''./logs'', log_fname = Some ''engine'', log_level = Some DEBUG,
            log_stdio = Some False, log_fileio = Some True\<rparr>"
    and f: "files w' ?P = Some ?t"
    by auto
  from t [where ?e1.0 = e and ?w1.0 = w', THEN conjunct1] i ne
  obtain cp lf ld ltf lts where
    rd: "read_string ConfigParser ?t = Inr cp"
    and g: "getitem cp LOGGER_SECTION LOGFILE_OPTION = Inr lf"
      "getitem cp LOGGER_SECTION LOGTOFILE_OPTION = Inr ltf"
    and c': "self_engineconf e =
                 \<lparr>log_fpath = Some ld, log_fname = Some lf, log_level = Some DEBUG,
                  log_stdio = Some (lts = ''enable''), log_fileio = Some (ltf = ''enable'')\<rparr>"
    by auto
  from c c' have "lf = ''engine''" and "ltf = ''enable''" by simp_all
  with i c f rd g show ?thesis by blast
qed

section \<open>The level of the logger\<close>

text \<open>
  C6.  Whenever the constructor is called with the logger enabled and returns an engine,
  the level in the engine's configuration is \<open>DEBUG\<close> and the logger it created has the
  level \<open>DEBUG\<close>.  The constructor reaches this through \<open>__create_config\<close> when the file
  was empty and through \<open>__parse_config\<close> otherwise (\<open>create_config_sets_level\<close>,
  \<open>parse_config_sets_level\<close>); neither reads a level from the file.
\<close>

theorem C6_enabled_logger_level_is_debug:
  assumes "Engine_init w gameconf (PyBool True) = (Inr e, w')"
  shows "log_level (self_engineconf e) = Some DEBUG
         \<and> (\<exists>h. get_logger e = Some h \<and> lg_level h = DEBUG)"
proof -
  let ?e0 = "\<lparr>self_enable_logger = True, self_init = False, self_engineconf = engineconf_unset,
              self_gameconf = gameconf, self_logger = None\<rparr>"
  from assms obtain e1 w1 where b: "bootstrap ?e0 w = (Inr e1, w1)"
    by (auto simp: Engine_init_def Let_def split: prod.splits sum.splits)
  from bootstrap_keeps [OF b] have k: "self_enable_logger e1" by simp
  from assms b k obtain w2 where s: "set_logger (e1\<lparr>self_logger := None\<rparr>) w1 = (Inr e, w2)"
    by (auto simp: Engine_init_def Let_def split: prod.splits sum.splits option.splits)
  have "gameconf \<noteq> None"
  proof
    assume "gameconf = None"
    with b have "e1 = ?e0" by (simp add: bootstrap_def)
    with s show False
      by (simp add: set_logger_def create_dir_def engineconf_unset_def Let_def)
  qed
  with bootstrap_sets_level [OF b] have "log_level (self_engineconf e1) = Some DEBUG" by simp
  with set_logger_result [OF s] show ?thesis by (auto simp: get_logger_def)
qed


theorem C6_level_witness:
  "(\<exists>e w'. Engine_init \<lparr>files = Map.empty, dirs = {}, refused = (\<lambda>p. False),
                        today = ''2020-05-12'', io_log = []\<rparr>
              (Some ''config/game.ini'') (PyBool True) = (Inr e, w')
      \<and> log_level (self_engineconf e) = Some DEBUG
      \<and> (\<exists>h. get_logger e = Some h \<and> lg_level h = DEBUG))
   \<and> (\<exists>e w'. Engine_init
          \<lparr>files = [''config/game.ini'' \<mapsto>
                      conf_text ''run'' ''/var/log/dm'' ''enable'' ''enable'' ''enable'' ''enable''],
           dirs = {''config''}, refused = (\<lambda>p. False), today = ''2020-05-12'', io_log = []\<rparr>
          (Some ''config/game.ini'') (PyBool True) = (Inr e, w')
      \<and> log_level (self_engineconf e) = Some DEBUG
      \<and> (\<exists>h. get_logger e = Some h \<and> lg_level h = DEBUG))"
proof
  let ?w = "\<lparr>files = Map.empty, dirs = {}, refused = (\<lambda>p. False),
             today = ''2020-05-12'', io_log = []\<rparr>"
  have "\<exists>e w'. Engine_init ?w (Some ''config/game.ini'') (PyBool True) = (Inr e, w')"
    using Engine_init_seeds [of ?w "''config/game.ini''"] by auto
  then obtain e w' where i: "Engine_init ?w (Some ''config/game.ini'') (PyBool True) = (Inr e, w')"
    by blast
  from C6_enabled_logger_level_is_debug [OF i] i
  show "\<exists>e w'. Engine_init ?w (Some ''config/game.ini'') (PyBool True) = (Inr e, w')
      \<and> log_level (self_engineconf e) = Some DEBUG
      \<and> (\<exists>h. get_logger e = Some h \<and> lg_level h = DEBUG)"
    by blast
next
  let ?w = "\<lparr>files = [''config/game.ini'' \<mapsto>
                      conf_text ''run'' ''/var/log/dm'' ''enable'' ''enable'' ''enable'' ''enable''],
           dirs = {''config''}, refused = (\<lambda>p. False), today = ''2020-05-12'', io_log = []\<rparr>"
  have f: "files ?w ''config/game.ini''
      = Some (conf_text ''run'' ''/var/log/dm'' ''enable'' ''enable'' ''enable'' ''enable'')"
    by simp
  have "\<exists>w'. Engine_init ?w (Some ''config/game.ini'') (PyBool True) =
           (Inr \<lparr>self_enable_logger = True, self_init = False,
                 self_engineconf = conf_engineconf ''run'' ''/var/log/dm'' ''enable'' ''enable'',
                 self_gameconf = Some ''config/game.ini'',
                 self_logger = Some \<lparr>lg_fpath = ''/var/log/dm'',
                                      lg_fname = ''run'' @ ''_'' @ today ?w @ ''.log'',
                                      lg_level = DEBUG, lg_stdio = (''enable'' = ''enable''),
                                      lg_fileio = (''enable'' = ''enable'')\<rparr>\<rparr>, w')
         \<and> files w' = files ?w"
    by (rule Engine_init_reads_conf [OF _ _ _ _ _ _ _ _ _ _ f])
       (simp_all add: plain_value_def py_isspace_def nl_def cr_def)
  then have "\<exists>e w'. Engine_init ?w (Some ''config/game.ini'') (PyBool True) = (Inr e, w')"
    by blast
  then obtain e w' where i: "Engine_init ?w (Some ''config/game.ini'') (PyBool True) = (Inr e, w')"
    by blast
  from C6_enabled_logger_level_is_debug [OF i] i
  show "\<exists>e w'. Engine_init ?w (Some ''config/game.ini'') (PyBool True) = (Inr e, w')
      \<and> log_level (self_engineconf e) = Some DEBUG
      \<and> (\<exists>h. get_logger e = Some h \<and> lg_level h = DEBUG)"
    by blast
qed


section \<open>Construction without a configuration path\<close>




section \<open>The boolean-like options\<close>

text \<open>
  C9.  When \<open>__parse_config\<close> runs with the logger enabled on a file that the parser
  reads, and the parser returns the strings \<open>vf\<close> for \<open>log_to_file\<close> and \<open>vs\<close> for
  \<open>log_to_stdio\<close> in the section \<open>logger\<close>, then the file sink is on exactly when \<open>vf\<close> is
  the literal \<open>enable\<close> and the stdio sink is on exactly when \<open>vs\<close> is: every other string,
  \<open>disable\<close> among them, gives false.
\<close>

theorem C9_only_enable_is_true:
  assumes "self_gameconf e = Some P" and "self_enable_logger e"
    and "files w P = Some text" and "read_string get_conf_parser text = Inr cp"
    and "getitem cp LOGGER_SECTION LOGTOFILE_OPTION = Inr vf"
    and "getitem cp LOGGER_SECTION LOGTOSTDIO_OPTION = Inr vs"
    and "parse_config e w = (Inr e', w')"
  shows "log_fileio (self_engineconf e') = Some (vf = ''enable'')
         \<and> log_stdio (self_engineconf e') = Some (vs = ''enable'')"
  using assms
  by (auto simp: parse_config_def cparser_read_def ENABLE_def Let_def
      split: sum.splits)

theorem C9_flags_witness:
  "log_fileio (self_engineconf (projr (fst (parse_config
      \<lparr>self_enable_logger = True, self_init = False, self_engineconf = engineconf_unset,
       self_gameconf = Some ''config/game.ini'', self_logger = None\<rparr>
      \<lparr>files = [''config/game.ini'' \<mapsto>
                  conf_text ''engine'' ''./logs'' ''enable'' ''disable'' ''disable'' ''disable''],
       dirs = {''config''}, refused = (\<lambda>p. False), today = ''2020-05-12'', io_log = []\<rparr>))))
     = Some True
   \<and> log_stdio (self_engineconf (projr (fst (parse_config
      \<lparr>self_enable_logger = True, self_init = False, self_engineconf = engineconf_unset,
       self_gameconf = Some ''config/game.ini'', self_logger = None\<rparr>
      \<lparr>files = [''config/game.ini'' \<mapsto>
                  conf_text ''engine'' ''./logs'' ''enable'' ''disable'' ''disable'' ''disable''],
       dirs = {''config''}, refused = (\<lambda>p. False), today = ''2020-05-12'', io_log = []\<rparr>))))
     = Some False"
proof -
  let ?e = "\<lparr>self_enable_logger = True, self_init = False, self_engineconf = engineconf_unset,
       self_gameconf = Some ''config/game.ini'', self_logger = None\<rparr>"
  let ?t = "conf_text ''engine'' ''./logs'' ''enable'' ''disable'' ''disable'' ''disable''"
  let ?w = "\<lparr>files = [''config/game.ini'' \<mapsto> ?t],
       dirs = {''config''}, refused = (\<lambda>p. False), today = ''2020-05-12'', io_log = []\<rparr>"
  let ?cp = "\<lparr>cp_defaults = [],
      cp_sections = conf_table ''engine'' ''./logs'' ''enable'' ''disable'' ''disable'' ''disable''\<rparr>"
  have pl: "plain_value ''engine''" "plain_value ''./logs''" "plain_value ''enable''"
    "plain_value ''disable''"
    by (simp_all add: plain_value_def py_isspace_def nl_def cr_def)
  have np: "CHR ''%'' \<notin> set ''engine''" "CHR ''%'' \<notin> set ''./logs''"
    "CHR ''%'' \<notin> set ''enable''" "CHR ''%'' \<notin> set ''disable''"
    by simp_all
  have g: "self_gameconf ?e = Some ''config/game.ini''" and en: "self_enable_logger ?e"
    and f: "files ?w ''config/game.ini'' = Some ?t"
    by simp_all
  have rd: "read_string get_conf_parser ?t = Inr ?cp"
    unfolding get_conf_parser_def by (rule read_conf_text) (rule pl)+
  have gi: "getitem ?cp LOGGER_SECTION LOGTOFILE_OPTION = Inr ''enable''"
    "getitem ?cp LOGGER_SECTION LOGTOSTDIO_OPTION = Inr ''disable''"
    using getitem_conf_table [OF np(1) np(2) np(3) np(4)] by simp_all
  have pc: "parse_config ?e ?w =
      (Inr (?e\<lparr>self_engineconf := conf_engineconf ''engine'' ''./logs'' ''enable'' ''disable''\<rparr>),
       emit (EvRead ''config/game.ini'') ?w)"
    by (rule parse_config_conf [OF pl(1) pl(2) pl(3) pl(4) pl(4) pl(4) np g en f])
  from C9_only_enable_is_true [OF g en f rd gi pc] pc show ?thesis by simp
qed



section \<open>The shutdown confirmation\<close>

text \<open>
  C7.  Take an engine whose logger is set whenever its logger flag is (every constructed
  engine is such, \<open>Engine_init_logger_invariant\<close>) and let an interrupt be answered by the
  line \<open>r\<close>.  If \<open>r\<close> is empty or starts with \<open>y\<close> or \<open>Y\<close>, \<open>_mainloop\<close> leaves the process
  through \<open>exit\<close> with the message \<open>Engine exiting\<close> and the run loop is terminated.  For
  every other first character \<open>_mainloop\<close> returns, the run loop goes on with the same
  engine and treats the following interrupts by the same function, and with no further
  interrupt the engine is running.
\<close>

theorem C7_shutdown_confirmation:
  assumes "self_enable_logger e \<longrightarrow> self_logger e \<noteq> None"
  shows "fst (mainloop_once e (Answer r) w)
           = (if r = [] \<or> hd r = CHR ''y'' \<or> hd r = CHR ''Y''
              then SystemExit ''Engine exiting'' else Returned)
         \<and> ((r = [] \<or> hd r = CHR ''y'' \<or> hd r = CHR ''Y'') \<longrightarrow>
               fst (mainloop e (Answer r # rs) w) = Terminated ''Engine exiting'')
         \<and> (\<not> (r = [] \<or> hd r = CHR ''y'' \<or> hd r = CHR ''Y'') \<longrightarrow>
               mainloop e (Answer r # rs) w = mainloop e rs (snd (mainloop_once e (Answer r) w))
               \<and> fst (mainloop e [Answer r] w) = Running)"
proof -
  let ?c = "r = [] \<or> hd r = CHR ''y'' \<or> hd r = CHR ''Y''"
  have o: "fst (mainloop_once e (Answer r) w)
           = (if ?c then SystemExit ''Engine exiting'' else Returned)"
    using mainloop_once_answer [OF assms, of r w] by (simp add: confirms_def)
  obtain p w1 where m: "mainloop_once e (Answer r) w = (p, w1)"
    by (cases "mainloop_once e (Answer r) w")
  with o have p: "p = (if ?c then SystemExit ''Engine exiting'' else Returned)" by simp
  have "\<exists>u w2. mainloop_enter e w1 = (Inr u, w2)"
    using assms by (cases "self_logger e") (auto simp: mainloop_enter_def)
  then obtain u w2 where en: "mainloop_enter e w1 = (Inr u, w2)" by blast
  show ?thesis
  proof (cases ?c)
    case True
    with m p have "mainloop e (Answer r # rs) w = (Terminated ''Engine exiting'', w1)" by simp
    with o True show ?thesis by simp
  next
    case False
    with m p have 1: "mainloop e (Answer r # rs) w = mainloop e rs w1" by simp
    from False m p have "mainloop e [Answer r] w = mainloop e [] w1" by simp
    with en have 2: "fst (mainloop e [Answer r] w) = Running" by simp
    from o False 1 2 m show ?thesis by simp
  qed
qed

theorem C7_shutdown_witness:
  "fst (mainloop_once \<lparr>self_enable_logger = False, self_init = False,
       self_engineconf = engineconf_unset, self_gameconf = None, self_logger = None\<rparr>
       (Answer ''Yes'') \<lparr>files = Map.empty, dirs = {}, refused = (\<lambda>p. False),
                         today = ''2020-05-12'', io_log = []\<rparr>)
       = SystemExit ''Engine exiting''
   \<and> fst (mainloop \<lparr>self_enable_logger = False, self_init = False,
       self_engineconf = engineconf_unset, self_gameconf = None, self_logger = None\<rparr>
       [Answer ''no'', Answer ''n'', Answer []]
       \<lparr>files = Map.empty, dirs = {}, refused = (\<lambda>p. False),
        today = ''2020-05-12'', io_log = []\<rparr>)
       = Terminated ''Engine exiting''
   \<and> fst (mainloop \<lparr>self_enable_logger = False, self_init = False,
       self_engineconf = engineconf_unset, self_gameconf = None, self_logger = None\<rparr>
       [Answer ''no''] \<lparr>files = Map.empty, dirs = {}, refused = (\<lambda>p. False),
                         today = ''2020-05-12'', io_log = []\<rparr>)
       = Running"
proof -
  let ?e = "\<lparr>self_enable_logger = False, self_init = False,
       self_engineconf = engineconf_unset, self_gameconf = None, self_logger = None\<rparr>"
  let ?w = "\<lparr>files = Map.empty, dirs = {}, refused = (\<lambda>p. False),
                         today = ''2020-05-12'', io_log = []\<rparr>"
  let ?w1 = "snd (mainloop_once ?e (Answer ''no'') ?w)"
  let ?w2 = "snd (mainloop_once ?e (Answer ''n'') ?w1)"
  have i: "self_enable_logger ?e \<longrightarrow> self_logger ?e \<noteq> None" by simp
  note t = C7_shutdown_confirmation [OF i]
  have no: "\<not> (''no'' = [] \<or> hd ''no'' = CHR ''y'' \<or> hd ''no'' = CHR ''Y'')"
    and n: "\<not> (''n'' = [] \<or> hd ''n'' = CHR ''y'' \<or> hd ''n'' = CHR ''Y'')"
    and em: "([] :: string) = [] \<or> hd [] = CHR ''y'' \<or> hd [] = CHR ''Y''"
    and yes: "''Yes'' = [] \<or> hd ''Yes'' = CHR ''y'' \<or> hd ''Yes'' = CHR ''Y''"
    by simp_all
  from t [of "''Yes''" ?w "[]"] yes
  have a: "fst (mainloop_once ?e (Answer ''Yes'') ?w) = SystemExit ''Engine exiting''"
    by presburger
  from t [of "''no''" ?w "[]"] no
  have b: "fst (mainloop ?e [Answer ''no''] ?w) = Running"
    by blast
  from t [of "''no''" ?w "[Answer ''n'', Answer []]"] no
  have 1: "mainloop ?e [Answer ''no'', Answer ''n'', Answer []] ?w
        = mainloop ?e [Answer ''n'', Answer []] ?w1"
    by blast
  from t [of "''n''" ?w1 "[Answer []]"] n
  have 2: "mainloop ?e [Answer ''n'', Answer []] ?w1 = mainloop ?e [Answer []] ?w2"
    by blast
  from t [of "[]" ?w2 "[]"] em
  have 3: "fst (mainloop ?e [Answer []] ?w2) = Terminated ''Engine exiting''"
    by blast
  from 1 2 3 have c: "fst (mainloop ?e [Answer ''no'', Answer ''n'', Answer []] ?w)
        = Terminated ''Engine exiting''"
    by (simp del: mainloop.simps)
  from a b c show ?thesis by (simp del: mainloop.simps)
qed



section \<open>The logger handle of an engine without logging\<close>

text \<open>
  C10.  An engine constructed with \<open>enable_logger=False\<close> has no logger: \<open>get_logger\<close>
  returns \<open>None\<close> right after the construction, and still does after any sequence of calls
  of \<open>get_logger\<close> and passes of the run loop in which \<open>set_logger\<close> does not occur.
\<close>

theorem C10_no_implicit_logger:
  assumes "Engine_init w gameconf (PyBool False) = (Inr e, w')"
    and "CallSetLogger \<notin> set calls"
  shows "get_logger e = None \<and> get_logger (fst (call_methods calls (e, w'))) = None"
proof -
  from Engine_init_logger_invariant(2,3) [OF assms(1)] have "self_logger e = None"
    by simp
  with call_methods_keep_logger [OF assms(2)] show ?thesis by (simp add: get_logger_def)
qed

theorem C10_no_implicit_logger_witness:
  "Engine_init \<lparr>files = Map.empty, dirs = {}, refused = (\<lambda>p. False), today = ''2020-05-12'',
                 io_log = []\<rparr> None (PyBool False)
     = (Inr \<lparr>self_enable_logger = False, self_init = False, self_engineconf = engineconf_unset,
             self_gameconf = None, self_logger = None\<rparr>,
        \<lparr>files = Map.empty, dirs = {}, refused = (\<lambda>p. False), today = ''2020-05-12'',
         io_log = []\<rparr>)
   \<and> CallSetLogger \<notin> set [CallGetLogger, CallMainloopOnce (Answer ''n''), CallGetLogger]
   \<and> get_logger (fst (call_methods
         [CallGetLogger, CallMainloopOnce (Answer ''n''), CallGetLogger]
         (\<lparr>self_enable_logger = False, self_init = False, self_engineconf = engineconf_unset,
           self_gameconf = None, self_logger = None\<rparr>,
          \<lparr>files = Map.empty, dirs = {}, refused = (\<lambda>p. False), today = ''2020-05-12'',
           io_log = []\<rparr>))) = None"
proof -
  let ?w = "\<lparr>files = Map.empty, dirs = {}, refused = (\<lambda>p. False), today = ''2020-05-12'',
             io_log = []\<rparr>"
  let ?e = "\<lparr>self_enable_logger = False, self_init = False, self_engineconf = engineconf_unset,
             self_gameconf = None, self_logger = None\<rparr>"
  have i: "Engine_init ?w None (PyBool False) = (Inr ?e, ?w)"
    by (simp add: Engine_init_def bootstrap_def Let_def)
  have c: "CallSetLogger \<notin> set [CallGetLogger, CallMainloopOnce (Answer ''n''), CallGetLogger]"
    by simp
  from C10_no_implicit_logger [OF i c] i c show ?thesis by blast
qed


end
